theory Spec2Isabelle
  imports Complex_Main
begin

section \<open>Exceptions\<close>

text \<open>
  The exception classes that the modelled code can raise. \<open>CalibrationParseError\<close> is
  the class the specification names for a diagnostic stream without the expected lines;
  no statement of \<^verbatim>\<open>cam.py\<close> constructs it, and it is listed only so that statements
  about it can be written down.
\<close>

datatype error =
    IndexError
  | ValueError
  | ZeroDivisionError
  | KeyError
  | AttributeError
  | Exception
  | OSError
  | RuntimeError
  | TypeError
  | PiCameraError
  | CalibrationParseError

section \<open>The regular expressions of \<^verbatim>\<open>cam.py\<close>\<close>

text \<open>
  Both patterns of \<^verbatim>\<open>RaspiStillCamera.update_capture_settings\<close> are sequences of literal
  text and named groups \<^verbatim>\<open>(?P<name>[0-9]*)\<close>. A pattern is a list of such tokens; a match
  object is the list of its named groups with the text each one captured.
\<close>

datatype ptok = Lit string | Grp string

type_synonym pattern = "ptok list"

type_synonym rmatch = "(string \<times> string) list"

definition is_digit :: "char \<Rightarrow> bool" where
  "is_digit c = (c \<in> set ''0123456789'')"

text \<open>
  A greedy \<^verbatim>\<open>[0-9]*\<close> first takes every digit there is and gives digits back one at a
  time while the rest of the pattern fails: \<open>backtrack cont s n\<close> tries the continuation
  after \<open>n\<close> digits, then after \<open>n - 1\<close>, down to none.
\<close>

primrec backtrack :: "(string \<Rightarrow> 'a option) \<Rightarrow> string \<Rightarrow> nat \<Rightarrow> (nat \<times> 'a) option" where
  "backtrack cont s 0 = (case cont s of None \<Rightarrow> None | Some r \<Rightarrow> Some (0, r))"
| "backtrack cont s (Suc n) =
     (case cont (drop (Suc n) s) of
        Some r \<Rightarrow> Some (Suc n, r)
      | None \<Rightarrow> backtrack cont s n)"

text \<open>
  \<open>match_at p s\<close> matches the pattern at the very start of \<open>s\<close>: the groups captured and
  the text left after the match, or \<open>None\<close>.
\<close>

primrec match_at :: "pattern \<Rightarrow> string \<Rightarrow> (rmatch \<times> string) option" where
  "match_at [] = (\<lambda>s. Some ([], s))"
| "match_at (t # p) = (\<lambda>s.
     case t of
       Lit l \<Rightarrow>
         if take (length l) s = l then match_at p (drop (length l) s) else None
     | Grp g \<Rightarrow>
         (case backtrack (match_at p) s (length (takeWhile is_digit s)) of
            None \<Rightarrow> None
          | Some (n, gs, r) \<Rightarrow> Some ((g, take n s) # gs, r)))"

text \<open>
  \<^verbatim>\<open>re.finditer(pattern, string, re.MULTILINE)\<close>: the matches from left to right, none
  overlapping another. The search resumes where the last match ended; after an empty
  match, and where nothing matches, it moves on by one character. (The flag
  \<^verbatim>\<open>re.MULTILINE\<close> changes only \<^verbatim>\<open>^\<close> and \<^verbatim>\<open>$\<close>, which these patterns do not use.)
\<close>

function finditer :: "pattern \<Rightarrow> string \<Rightarrow> rmatch list" where
  "finditer p s =
     (case match_at p s of
        Some (gs, r) \<Rightarrow>
          if length r < length s then gs # finditer p r
          else gs # (case s of [] \<Rightarrow> [] | c # t \<Rightarrow> finditer p t)
      | None \<Rightarrow> (case s of [] \<Rightarrow> [] | c # t \<Rightarrow> finditer p t))"
  by pat_completeness auto
termination
  by (relation "measure (\<lambda>(p, s). length s)") auto

declare finditer.simps [simp del]

text \<open>
  \<^verbatim>\<open>if matches:\<close> tests the iterator object that \<^verbatim>\<open>re.finditer\<close> returned. That object
  defines neither \<^verbatim>\<open>__bool__\<close> nor \<^verbatim>\<open>__len__\<close>, so Python takes it for true whatever it
  is going to yield.
\<close>

definition truthy_iterator :: "'a list \<Rightarrow> bool" where
  "truthy_iterator it = True"

text \<open>
  \<^verbatim>\<open>find_last_match\<close>: \<^verbatim>\<open>list(matches)[-1]\<close> raises \<^verbatim>\<open>IndexError\<close> on the empty list; the
  result \<open>Inr None\<close> stands for the final \<^verbatim>\<open>return None\<close>.
\<close>

definition find_last_match :: "pattern \<Rightarrow> string \<Rightarrow> error + rmatch option" where
  "find_last_match pattern string =
     (let matches = finditer pattern string in
      if truthy_iterator matches then
        (case matches of [] \<Rightarrow> Inl IndexError | m # ms \<Rightarrow> Inr (Some (last matches)))
      else Inr None)"

text \<open>\<^verbatim>\<open>m.group(name)\<close>; a name the pattern does not define raises \<^verbatim>\<open>IndexError\<close>.\<close>

definition group :: "rmatch \<Rightarrow> string \<Rightarrow> error + string" where
  "group m name = (case map_of m name of None \<Rightarrow> Inl IndexError | Some v \<Rightarrow> Inr v)"

definition exposure_pattern :: pattern where
  "exposure_pattern =
     [Lit ''mmal: Exposure now '', Grp ''exposure'',
      Lit '', analog gain '', Grp ''analog_gain_n'', Lit ''/'', Grp ''analog_gain_d'',
      Lit '', digital gain '', Grp ''digital_gain_n'', Lit ''/'', Grp ''digital_gain_d'']"

definition awb_pattern :: pattern where
  "awb_pattern =
     [Lit ''mmal: AWB R='', Grp ''awb_r_n'', Lit ''/'', Grp ''awb_r_d'',
      Lit '', B='', Grp ''awb_b_n'', Lit ''/'', Grp ''awb_b_d'']"

section \<open>Python values\<close>

text \<open>
  The arithmetic of Python's \<^verbatim>\<open>float\<close> is a parameter of the model: \<open>'f\<close> is the type of
  floats, \<open>of_digits s\<close> is \<^verbatim>\<open>float(s)\<close> for a non-empty string of decimal digits,
  \<open>truediv a b\<close> is \<^verbatim>\<open>a / b\<close> for a divisor other than \<^verbatim>\<open>0.0\<close>, and \<open>of_fraction q\<close> is
  \<^verbatim>\<open>float(q)\<close> for a \<^verbatim>\<open>Fraction\<close>. Everything below holds for any choice of them.
\<close>

record 'f float_ops =
  of_digits :: "string \<Rightarrow> 'f"
  truediv :: "'f \<Rightarrow> 'f \<Rightarrow> 'f"
  of_fraction :: "rat \<Rightarrow> 'f"

datatype 'f pyval = PyNone | PyInt int | PyFloat 'f | PyList "'f pyval list"

text \<open>A \<^verbatim>\<open>dict\<close> with string keys, in insertion order.\<close>

type_synonym 'f settings = "(string \<times> 'f pyval) list"

fun dict_set :: "(string \<times> 'v) list \<Rightarrow> string \<Rightarrow> 'v \<Rightarrow> (string \<times> 'v) list" where
  "dict_set [] k v = [(k, v)]"
| "dict_set ((k', v') # d) k v = (if k' = k then (k, v) # d else (k', v') # dict_set d k v)"

definition dict_get :: "(string \<times> 'v) list \<Rightarrow> string \<Rightarrow> error + 'v" where
  "dict_get d k = (case map_of d k of None \<Rightarrow> Inl KeyError | Some v \<Rightarrow> Inr v)"

text \<open>
  \<^verbatim>\<open>float(s)\<close> for the text of a group \<^verbatim>\<open>[0-9]*\<close>: the empty string raises \<^verbatim>\<open>ValueError\<close>.
  (\<^verbatim>\<open>float\<close> also reads signs, points, exponents and blanks; no group of these patterns
  can capture one, and here such text is refused like any other.)
\<close>

definition py_float :: "'f float_ops \<Rightarrow> string \<Rightarrow> error + 'f" where
  "py_float ops s =
     (if s \<noteq> [] \<and> list_all is_digit s then Inr (of_digits ops s) else Inl ValueError)"

text \<open>\<^verbatim>\<open>str(i)\<close> for an \<^verbatim>\<open>int\<close>.\<close>

definition digit_char :: "nat \<Rightarrow> char" where
  "digit_char n = ''0123456789'' ! (n mod 10)"

function str_nat :: "nat \<Rightarrow> string" where
  "str_nat n = (if n < 10 then [digit_char n] else str_nat (n div 10) @ [digit_char n])"
  by pat_completeness auto
termination
  by (relation "measure id") auto

declare str_nat.simps [simp del]

definition str_int :: "int \<Rightarrow> string" where
  "str_int i = (if i < 0 then CHR ''-'' # str_nat (nat (- i)) else str_nat (nat i))"

text \<open>\<^verbatim>\<open>sep.join(xs)\<close>.\<close>

fun join :: "string \<Rightarrow> string list \<Rightarrow> string" where
  "join sep [] = []"
| "join sep [x] = x"
| "join sep (x # y # ys) = x @ sep @ join sep (y # ys)"

section \<open>What a call does to the outside world\<close>

text \<open>
  \<open>ShellCall c\<close> is \<^verbatim>\<open>subprocess.call(c, shell=True)\<close>, \<open>Run args\<close> is
  \<^verbatim>\<open>subprocess.run(args, stderr=subprocess.PIPE)\<close>, \<open>Call args\<close> is \<^verbatim>\<open>subprocess.call(args)\<close>,
  \<open>TimeSleep t\<close> is \<^verbatim>\<open>time.sleep(t)\<close>; \<open>OpenCamera\<close> and \<open>CloseCamera\<close> are the two ends of
  \<^verbatim>\<open>with PiCamera(resolution=...) as camera\<close>, and the others are the assignments and the
  \<^verbatim>\<open>capture\<close> call on that \<^verbatim>\<open>camera\<close>.
\<close>

datatype 'f effect =
    ShellCall string
  | Run "string list"
  | Call "string list"
  | TimeSleep rat
  | OpenCamera "int \<times> int"
  | SetExposureMode string
  | SetShutterSpeed "'f pyval"
  | SetAwbMode string
  | SetAwbGains "'f pyval"
  | Capture string
  | CloseCamera

text \<open>
  What the outside world answers during one call: \<open>tool_stderr\<close> is the outcome of
  \<^verbatim>\<open>subprocess.run(cmd, stderr=subprocess.PIPE)\<close>, an exception or the text
  \<^verbatim>\<open>str(result.stderr)\<close>; \<open>camera_reading\<close> is the outcome of a \<^verbatim>\<open>PiCamera\<close> session, an
  exception on opening it or the pair \<^verbatim>\<open>(exposure_speed, awb_gains)\<close> read after the
  settle time; \<open>capture_error\<close> is the exception, if any, that the capture raises
  (\<^verbatim>\<open>subprocess.call\<close> for the tool, opening the \<^verbatim>\<open>PiCamera\<close> session for the library).
\<close>

record world =
  tool_stderr :: "error + string"
  camera_reading :: "error + int \<times> rat list"
  capture_error :: "error option"

section \<open>\<^verbatim>\<open>PixelArray\<close>\<close>

type_synonym rgb = "nat \<times> nat \<times> nat"

datatype pixel_event = SetBrightness rat | Fill rgb | Show | Sleep rat

text \<open>
  \<open>lock\<close> is the \<^verbatim>\<open>threading.Lock\<close> (\<open>True\<close> when held), \<open>pixels\<close> the colour buffer of
  the \<^verbatim>\<open>NeoPixel\<close> object, and \<open>events\<close> what has been done to the strip and the clock,
  oldest first.
\<close>

record pixel_array =
  num_pixels :: nat
  lock :: bool
  brightness :: rat
  pixels :: "rgb list"
  events :: "pixel_event list"

definition FLASH_BRIGHTNESS :: rat where
  "FLASH_BRIGHTNESS = 2 / 10"

definition IDLE_BRIGHTNESS :: rat where
  "IDLE_BRIGHTNESS = 5 / 100"

definition NUM_PIXELS :: nat where
  "NUM_PIXELS = 92"

text \<open>
  How a call ends: it returns, it raises, or it never comes back because it waits for a
  lock that is held. Each case carries the state the call leaves behind.
\<close>

datatype 'a outcome = Returns 'a | Raises error 'a | Blocks 'a

primrec state_of :: "'a outcome \<Rightarrow> 'a" where
  "state_of (Returns a) = a"
| "state_of (Raises e a) = a"
| "state_of (Blocks a) = a"

primrec raised :: "'a outcome \<Rightarrow> error option" where
  "raised (Returns a) = None"
| "raised (Raises e a) = Some e"
| "raised (Blocks a) = None"

definition PixelArray_init :: "nat \<Rightarrow> pixel_array" where
  "PixelArray_init n =
     \<lparr>num_pixels = n, lock = False, brightness = IDLE_BRIGHTNESS,
      pixels = replicate n (0, 0, 0), events = []\<rparr>"

definition set_brightness :: "rat \<Rightarrow> pixel_array \<Rightarrow> pixel_array" where
  "set_brightness b self = self\<lparr>brightness := b, events := events self @ [SetBrightness b]\<rparr>"

definition pixels_fill :: "rgb \<Rightarrow> pixel_array \<Rightarrow> pixel_array" where
  "pixels_fill c self =
     self\<lparr>pixels := replicate (num_pixels self) c, events := events self @ [Fill c]\<rparr>"

definition pixels_show :: "pixel_array \<Rightarrow> pixel_array" where
  "pixels_show self = self\<lparr>events := events self @ [Show]\<rparr>"

definition time_sleep :: "rat \<Rightarrow> pixel_array \<Rightarrow> pixel_array" where
  "time_sleep t self = self\<lparr>events := events self @ [Sleep t]\<rparr>"

text \<open>The body of \<^verbatim>\<open>for i in range(3)\<close> in \<^verbatim>\<open>flash_on\<close>, run \<open>n\<close> times.\<close>

primrec countdown_loop :: "nat \<Rightarrow> pixel_array \<Rightarrow> pixel_array" where
  "countdown_loop 0 self = self"
| "countdown_loop (Suc n) self =
     countdown_loop n
       (time_sleep 1 (pixels_show (pixels_fill (0, 0, 0)
          (time_sleep (1 / 2) (pixels_show (pixels_fill (255, 0, 0) self))))))"

definition flash_on :: "bool \<Rightarrow> pixel_array \<Rightarrow> pixel_array outcome" where
  "flash_on countdown self =
     (if lock self then Blocks self
      else
        let self = self\<lparr>lock := True\<rparr>;
            self = set_brightness FLASH_BRIGHTNESS self;
            self = (if countdown then countdown_loop 3 self else self);
            self = pixels_fill (255, 255, 255) self;
            self = pixels_show self
        in Returns self)"

text \<open>\<^verbatim>\<open>Lock.release()\<close> on a lock that is not held raises \<^verbatim>\<open>RuntimeError\<close>.\<close>

definition flash_off :: "pixel_array \<Rightarrow> pixel_array outcome" where
  "flash_off self =
     (let self = set_brightness IDLE_BRIGHTNESS self;
          self = pixels_fill (0, 0, 0) self;
          self = pixels_show self
      in if lock self then Returns (self\<lparr>lock := False\<rparr>) else Raises RuntimeError self)"

text \<open>
  The strip as \<^verbatim>\<open>flash_on\<close> leaves it (lock held, flash brightness, white) and as
  \<^verbatim>\<open>flash_off\<close> leaves it (lock free, idle brightness, black).
\<close>

definition held_lit :: "pixel_array \<Rightarrow> bool" where
  "held_lit pa =
     (lock pa \<and> brightness pa = FLASH_BRIGHTNESS \<and>
      pixels pa = replicate (num_pixels pa) (255, 255, 255))"

definition released_idle :: "pixel_array \<Rightarrow> bool" where
  "released_idle pa =
     (\<not> lock pa \<and> brightness pa = IDLE_BRIGHTNESS \<and>
      pixels pa = replicate (num_pixels pa) (0, 0, 0))"

text \<open>The time spent in \<^verbatim>\<open>time.sleep\<close> over a list of events, in seconds.\<close>

primrec sleep_time :: "pixel_event \<Rightarrow> rat" where
  "sleep_time (SetBrightness b) = 0"
| "sleep_time (Fill c) = 0"
| "sleep_time Show = 0"
| "sleep_time (Sleep t) = t"

definition slept :: "pixel_event list \<Rightarrow> rat" where
  "slept evs = sum_list (map sleep_time evs)"

section \<open>\<^verbatim>\<open>Camera\<close> and its two subclasses\<close>

datatype camera_class = Camera | PyCamera | RaspiStillCamera

datatype timer_state = Pending | Fired | Cancelled

text \<open>
  A started \<^verbatim>\<open>threading.Timer(interval, self.update_settings)\<close>: it is \<open>Pending\<close> until its
  interval has passed, \<open>Fired\<close> once it has called the function, and \<open>Cancelled\<close> when
  \<^verbatim>\<open>cancel()\<close> reached it while it was still pending.
\<close>

record timer =
  interval :: nat
  tstate :: timer_state

definition SETTINGS_UPDATE_INTERVAL :: nat where
  "SETTINGS_UPDATE_INTERVAL = 10 * 60"

text \<open>
  The attributes of a camera object; \<open>None\<close> for an attribute that has not been assigned
  yet. \<open>effects\<close> lists what the object's calls have done to the outside world, oldest
  first.
\<close>

record 'f camera =
  cls :: camera_class
  resolution :: "int \<times> int"
  pixel_array :: pixel_array
  settings_lock :: bool
  settings :: "'f settings option"
  settings_update_timer :: "timer option"
  effects :: "'f effect list"

subsection \<open>\<^verbatim>\<open>PyCamera\<close>\<close>

definition PyCamera_update_capture_settings ::
  "'f float_ops \<Rightarrow> world \<Rightarrow> 'f camera \<Rightarrow> 'f effect list \<times> (error + 'f settings)" where
  "PyCamera_update_capture_settings ops w self =
     (let settings = [(''analog_gain'', PyNone), (''digital_gain'', PyNone)] in
      case camera_reading w of
        Inl e \<Rightarrow> ([], Inl e)
      | Inr (exposure_speed, awb_gains) \<Rightarrow>
          (let settings = dict_set settings ''shutter_speed'' (PyInt exposure_speed);
               settings = dict_set settings ''awb_gains''
                            (PyList (map (\<lambda>g. PyFloat (of_fraction ops g)) awb_gains))
           in ([OpenCamera (resolution self), TimeSleep 2, CloseCamera], Inr settings)))"

definition PyCamera_capture_image ::
  "world \<Rightarrow> string \<Rightarrow> 'f camera \<Rightarrow> 'f effect list \<times> error option" where
  "PyCamera_capture_image w output_path self =
     (case capture_error w of
        Some e \<Rightarrow> ([], Some e)
      | None \<Rightarrow>
          (case settings self of
             None \<Rightarrow> ([OpenCamera (resolution self), SetExposureMode ''off'', CloseCamera],
                       Some AttributeError)
           | Some st \<Rightarrow>
               (case dict_get st ''shutter_speed'' of
                  Inl e \<Rightarrow> ([OpenCamera (resolution self), SetExposureMode ''off'', CloseCamera],
                            Some e)
                | Inr sp \<Rightarrow>
                    (case dict_get st ''awb_gains'' of
                       Inl e \<Rightarrow>
                         ([OpenCamera (resolution self), SetExposureMode ''off'',
                           SetShutterSpeed sp, SetAwbMode ''off'', CloseCamera], Some e)
                     | Inr g \<Rightarrow>
                         ([OpenCamera (resolution self), SetExposureMode ''off'',
                           SetShutterSpeed sp, SetAwbMode ''off'', SetAwbGains g,
                           Capture output_path, CloseCamera], None)))))"

subsection \<open>\<^verbatim>\<open>RaspiStillCamera\<close>\<close>

text \<open>
  \<^verbatim>\<open>m.group(name)\<close> where \<^verbatim>\<open>m\<close> is what \<^verbatim>\<open>find_last_match\<close> returned: on \<^verbatim>\<open>None\<close> the
  attribute lookup raises \<^verbatim>\<open>AttributeError\<close>.
\<close>

definition match_group :: "rmatch option \<Rightarrow> string \<Rightarrow> error + string" where
  "match_group m name = (case m of None \<Rightarrow> Inl AttributeError | Some m' \<Rightarrow> group m' name)"

text \<open>\<^verbatim>\<open>float(m.group(name))\<close>.\<close>

definition group_float :: "'f float_ops \<Rightarrow> rmatch option \<Rightarrow> string \<Rightarrow> error + 'f" where
  "group_float ops m name =
     (case match_group m name of Inl e \<Rightarrow> Inl e | Inr s \<Rightarrow> py_float ops s)"

definition all_zeros :: "string \<Rightarrow> bool" where
  "all_zeros s = list_all (\<lambda>c. c = CHR ''0'') s"

text \<open>
  \<^verbatim>\<open>float(m.group(n)) / float(m.group(d))\<close>, operands from left to right. The division
  raises \<^verbatim>\<open>ZeroDivisionError\<close> when the divisor is \<^verbatim>\<open>0.0\<close>, which for a string of digits
  is the case exactly when every digit is \<^verbatim>\<open>0\<close>.
\<close>

definition group_ratio ::
  "'f float_ops \<Rightarrow> rmatch option \<Rightarrow> string \<Rightarrow> string \<Rightarrow> error + 'f" where
  "group_ratio ops m n d =
     (case group_float ops m n of
        Inl e \<Rightarrow> Inl e
      | Inr a \<Rightarrow>
          (case match_group m d of
             Inl e \<Rightarrow> Inl e
           | Inr ds \<Rightarrow>
               (case py_float ops ds of
                  Inl e \<Rightarrow> Inl e
                | Inr b \<Rightarrow>
                    if all_zeros ds then Inl ZeroDivisionError
                    else Inr (truediv ops a b))))"

text \<open>The dictionary literal that ends the method, its entries evaluated in order.\<close>

definition settings_of_matches ::
  "'f float_ops \<Rightarrow> rmatch option \<Rightarrow> rmatch option \<Rightarrow> error + 'f settings" where
  "settings_of_matches ops m1 m2 =
     (case group_ratio ops m1 ''analog_gain_n'' ''analog_gain_d'' of
        Inl e \<Rightarrow> Inl e
      | Inr analog \<Rightarrow>
     (case group_ratio ops m1 ''digital_gain_n'' ''digital_gain_d'' of
        Inl e \<Rightarrow> Inl e
      | Inr digital \<Rightarrow>
     (case group_float ops m1 ''exposure'' of
        Inl e \<Rightarrow> Inl e
      | Inr shutter \<Rightarrow>
     (case group_ratio ops m2 ''awb_r_n'' ''awb_r_d'' of
        Inl e \<Rightarrow> Inl e
      | Inr awb_r \<Rightarrow>
     (case group_ratio ops m2 ''awb_b_n'' ''awb_b_d'' of
        Inl e \<Rightarrow> Inl e
      | Inr awb_b \<Rightarrow>
          Inr [(''analog_gain'', PyFloat analog),
               (''digital_gain'', PyFloat digital),
               (''shutter_speed'', PyFloat shutter),
               (''awb_gains'', PyList [PyFloat awb_r, PyFloat awb_b])])))))"

text \<open>Everything after \<^verbatim>\<open>subprocess.run\<close> has returned, on the text \<^verbatim>\<open>str(result.stderr)\<close>.\<close>

definition parse_settings :: "'f float_ops \<Rightarrow> string \<Rightarrow> error + 'f settings" where
  "parse_settings ops stderr =
     (case find_last_match exposure_pattern stderr of
        Inl e \<Rightarrow> Inl e
      | Inr m1 \<Rightarrow>
          (case find_last_match awb_pattern stderr of
             Inl e \<Rightarrow> Inl e
           | Inr m2 \<Rightarrow> settings_of_matches ops m1 m2))"

definition RaspiStillCamera_update_capture_settings ::
  "'f float_ops \<Rightarrow> world \<Rightarrow> 'f camera \<Rightarrow> 'f effect list \<times> (error + 'f settings)" where
  "RaspiStillCamera_update_capture_settings ops w self =
     (let cmd = [''raspistill'',
                 ''--width'', str_int (fst (resolution self)),
                 ''--height'', str_int (snd (resolution self)),
                 ''--nopreview'',
                 ''--settings''];
          fx = [ShellCall ''chvt 6'', ShellCall ''chvt 7'', Run cmd]
      in case tool_stderr w of
           Inl e \<Rightarrow> (fx, Inl e)
         | Inr stderr \<Rightarrow> (fx @ [ShellCall ''tvservice -p''], parse_settings ops stderr))"

text \<open>
  \<^verbatim>\<open>str(v)\<close>; \<open>str_float\<close> is Python's text for a float, a parameter like the float
  arithmetic.
\<close>

fun py_str :: "('f \<Rightarrow> string) \<Rightarrow> 'f pyval \<Rightarrow> string" where
  "py_str str_float PyNone = ''None''"
| "py_str str_float (PyInt i) = str_int i"
| "py_str str_float (PyFloat x) = str_float x"
| "py_str str_float (PyList vs) = ''['' @ join '', '' (map (py_str str_float) vs) @ '']''"

text \<open>\<^verbatim>\<open>[str(g) for g in v]\<close>; a value that is no list cannot be iterated.\<close>

definition str_each :: "('f \<Rightarrow> string) \<Rightarrow> 'f pyval \<Rightarrow> error + string list" where
  "str_each str_float v =
     (case v of PyList vs \<Rightarrow> Inr (map (py_str str_float) vs) | _ \<Rightarrow> Inl TypeError)"

definition RaspiStillCamera_capture_image ::
  "('f \<Rightarrow> string) \<Rightarrow> world \<Rightarrow> string \<Rightarrow> 'f camera \<Rightarrow> 'f effect list \<times> error option" where
  "RaspiStillCamera_capture_image str_float w output_path self =
     (case settings self of
        None \<Rightarrow> ([], Some AttributeError)
      | Some st \<Rightarrow>
     (case dict_get st ''analog_gain'' of
        Inl e \<Rightarrow> ([], Some e)
      | Inr analog \<Rightarrow>
     (case dict_get st ''digital_gain'' of
        Inl e \<Rightarrow> ([], Some e)
      | Inr digital \<Rightarrow>
     (case dict_get st ''shutter_speed'' of
        Inl e \<Rightarrow> ([], Some e)
      | Inr shutter \<Rightarrow>
     (case dict_get st ''awb_gains'' of
        Inl e \<Rightarrow> ([], Some e)
      | Inr awb \<Rightarrow>
     (case str_each str_float awb of
        Inl e \<Rightarrow> ([], Some e)
      | Inr gains \<Rightarrow>
          ([Call [''raspistill'',
                  ''--output'', output_path,
                  ''--thumb'', ''none'',
                  ''--width'', str_int (fst (resolution self)),
                  ''--height'', str_int (snd (resolution self)),
                  ''--analoggain'', py_str str_float analog,
                  ''--digitalgain'', py_str str_float digital,
                  ''--exposure'', ''off'',
                  ''--shutter'', py_str str_float shutter,
                  ''--awb'', ''off'',
                  ''--awbgains'', join '','' gains,
                  ''--timeout'', ''1'',
                  ''--nopreview'',
                  ''--verbose'']],
           capture_error w)))))))"

subsection \<open>\<^verbatim>\<open>Camera\<close>\<close>

text \<open>The methods the subclasses override; in \<^verbatim>\<open>Camera\<close> itself both raise.\<close>

definition update_capture_settings ::
  "'f float_ops \<Rightarrow> world \<Rightarrow> 'f camera \<Rightarrow> 'f effect list \<times> (error + 'f settings)" where
  "update_capture_settings ops w self =
     (case cls self of
        Camera \<Rightarrow> ([], Inl Exception)
      | PyCamera \<Rightarrow> PyCamera_update_capture_settings ops w self
      | RaspiStillCamera \<Rightarrow> RaspiStillCamera_update_capture_settings ops w self)"

definition capture_image ::
  "('f \<Rightarrow> string) \<Rightarrow> world \<Rightarrow> string \<Rightarrow> 'f camera \<Rightarrow> 'f effect list \<times> error option" where
  "capture_image str_float w output_path self =
     (case cls self of
        Camera \<Rightarrow> ([], Some Exception)
      | PyCamera \<Rightarrow> PyCamera_capture_image w output_path self
      | RaspiStillCamera \<Rightarrow> RaspiStillCamera_capture_image str_float w output_path self)"

text \<open>
  What \<^verbatim>\<open>print\<close> writes to standard output is not modelled. Four of the \<^verbatim>\<open>print\<close> calls
  of \<^verbatim>\<open>update_settings\<close> read a key of \<^verbatim>\<open>self.settings\<close> each; the \<^verbatim>\<open>KeyError\<close> of a missing
  key is modelled.
\<close>

definition print_settings :: "'f settings \<Rightarrow> error option" where
  "print_settings st =
     (case dict_get st ''analog_gain'' of Inl e \<Rightarrow> Some e | Inr _ \<Rightarrow>
     (case dict_get st ''digital_gain'' of Inl e \<Rightarrow> Some e | Inr _ \<Rightarrow>
     (case dict_get st ''shutter_speed'' of Inl e \<Rightarrow> Some e | Inr _ \<Rightarrow>
     (case dict_get st ''awb_gains'' of Inl e \<Rightarrow> Some e | Inr _ \<Rightarrow> None))))"

text \<open>
  \<^verbatim>\<open>update_settings\<close>. The statement \<^verbatim>\<open>with self.settings_lock\<close> waits for the lock and
  releases it however the block ends; \<^verbatim>\<open>flash_on\<close> and \<^verbatim>\<open>flash_off\<close> are plain calls before
  and after the calibration.
\<close>

definition update_settings :: "'f float_ops \<Rightarrow> world \<Rightarrow> 'f camera \<Rightarrow> 'f camera outcome" where
  "update_settings ops w self =
     (if settings_lock self then Blocks self
      else
        let self = self\<lparr>settings_lock := True\<rparr> in
        case flash_on False (pixel_array self) of
          Blocks pa \<Rightarrow> Blocks (self\<lparr>pixel_array := pa\<rparr>)
        | Raises e pa \<Rightarrow> Raises e (self\<lparr>pixel_array := pa, settings_lock := False\<rparr>)
        | Returns pa \<Rightarrow>
            (let self = self\<lparr>pixel_array := pa\<rparr> in
             case update_capture_settings ops w self of
               (fx, Inl e) \<Rightarrow>
                 Raises e (self\<lparr>effects := effects self @ fx, settings_lock := False\<rparr>)
             | (fx, Inr st) \<Rightarrow>
                 (let self = self\<lparr>effects := effects self @ fx, settings := Some st\<rparr> in
                  case flash_off (pixel_array self) of
                    Blocks pa \<Rightarrow> Blocks (self\<lparr>pixel_array := pa\<rparr>)
                  | Raises e pa \<Rightarrow>
                      Raises e (self\<lparr>pixel_array := pa, settings_lock := False\<rparr>)
                  | Returns pa \<Rightarrow>
                      (let self = self\<lparr>pixel_array := pa, settings_lock := False\<rparr> in
                       case print_settings st of
                         Some e \<Rightarrow> Raises e self
                       | None \<Rightarrow>
                           Returns (self\<lparr>settings_update_timer :=
                             Some \<lparr>interval = SETTINGS_UPDATE_INTERVAL,
                                   tstate = Pending\<rparr>\<rparr>)))))"

definition take_photo ::
  "('f \<Rightarrow> string) \<Rightarrow> world \<Rightarrow> string \<Rightarrow> 'f camera \<Rightarrow> 'f camera outcome" where
  "take_photo str_float w output_path self =
     (if settings_lock self then Blocks self
      else
        let self = self\<lparr>settings_lock := True\<rparr> in
        case flash_on True (pixel_array self) of
          Blocks pa \<Rightarrow> Blocks (self\<lparr>pixel_array := pa\<rparr>)
        | Raises e pa \<Rightarrow> Raises e (self\<lparr>pixel_array := pa, settings_lock := False\<rparr>)
        | Returns pa \<Rightarrow>
            (let self = self\<lparr>pixel_array := pa\<rparr> in
             case capture_image str_float w output_path self of
               (fx, Some e) \<Rightarrow>
                 Raises e (self\<lparr>effects := effects self @ fx, settings_lock := False\<rparr>)
             | (fx, None) \<Rightarrow>
                 (let self = self\<lparr>effects := effects self @ fx\<rparr> in
                  case flash_off (pixel_array self) of
                    Blocks pa \<Rightarrow> Blocks (self\<lparr>pixel_array := pa\<rparr>)
                  | Raises e pa \<Rightarrow>
                      Raises e (self\<lparr>pixel_array := pa, settings_lock := False\<rparr>)
                  | Returns pa \<Rightarrow>
                      Returns (self\<lparr>pixel_array := pa, settings_lock := False\<rparr>))))"

text \<open>
  \<^verbatim>\<open>__init__\<close>: the attributes, then \<^verbatim>\<open>self.update_settings()\<close>. The class of the object is
  the first argument.
\<close>

definition Camera_init ::
  "'f float_ops \<Rightarrow> world \<Rightarrow> camera_class \<Rightarrow> int \<times> int \<Rightarrow> pixel_array \<Rightarrow> 'f camera outcome" where
  "Camera_init ops w c res pa =
     update_settings ops w
       \<lparr>cls = c, resolution = res, pixel_array = pa, settings_lock = False,
        settings = None, settings_update_timer = None, effects = []\<rparr>"

text \<open>
  \<^verbatim>\<open>Timer.cancel()\<close> stops a timer that is still waiting and does nothing to one that has
  already called its function.
\<close>

definition cancel :: "timer \<Rightarrow> timer" where
  "cancel t = (if tstate t = Pending then t\<lparr>tstate := Cancelled\<rparr> else t)"

definition destroy :: "'f camera \<Rightarrow> 'f camera outcome" where
  "destroy self =
     (case settings_update_timer self of
        None \<Rightarrow> Raises AttributeError self
      | Some t \<Rightarrow> Returns (self\<lparr>settings_update_timer := Some (cancel t)\<rparr>))"

text \<open>
  The interval of the started timer has passed: a pending timer calls
  \<^verbatim>\<open>self.update_settings\<close>, a cancelled one does nothing.
\<close>

definition timer_fires :: "'f float_ops \<Rightarrow> world \<Rightarrow> 'f camera \<Rightarrow> 'f camera outcome" where
  "timer_fires ops w self =
     (case settings_update_timer self of
        None \<Rightarrow> Returns self
      | Some t \<Rightarrow>
          if tstate t = Pending
          then update_settings ops w (self\<lparr>settings_update_timer := Some (t\<lparr>tstate := Fired\<rparr>)\<rparr>)
          else Returns self)"

section \<open>Reading a match, and one float arithmetic\<close>

text \<open>The names of a pattern's groups, and the text a match holds for a name.\<close>

primrec group_names :: "pattern \<Rightarrow> string list" where
  "group_names [] = []"
| "group_names (t # p) = (case t of Lit l \<Rightarrow> group_names p | Grp g \<Rightarrow> g # group_names p)"

definition captured :: "rmatch \<Rightarrow> string \<Rightarrow> string" where
  "captured m name = (case map_of m name of None \<Rightarrow> [] | Some v \<Rightarrow> v)"

text \<open>
  One choice of the float arithmetic: floats as exact rationals. Python's doubles agree
  with it wherever the numbers read and their quotient are representable, as whole
  numbers below \<open>2 ^ 53\<close> and the quotients of the examples below are.
\<close>

definition nat_of_digits :: "string \<Rightarrow> nat" where
  "nat_of_digits s = foldl (\<lambda>n c. 10 * n + (of_char c - 48)) 0 s"

definition exact_ops :: "rat float_ops" where
  "exact_ops =
     \<lparr>of_digits = (\<lambda>s. of_nat (nat_of_digits s)), truediv = (\<lambda>a b. a / b), of_fraction = id\<rparr>"

text \<open>
  The text of such a float: the whole part, a point, and the decimals, up to 17 of them
  and at least one. For a number with that few digits it is what \<^verbatim>\<open>str\<close> writes for the
  double.
\<close>

fun frac_digits :: "nat \<Rightarrow> nat \<Rightarrow> nat \<Rightarrow> string" where
  "frac_digits 0 r d = []"
| "frac_digits (Suc k) r d =
     (if r = 0 then [] else digit_char (10 * r div d) # frac_digits k (10 * r mod d) d)"

definition str_exact :: "rat \<Rightarrow> string" where
  "str_exact q =
     (let n = fst (quotient_of q);
          d = nat (snd (quotient_of q));
          a = nat \<bar>n\<bar>;
          f = frac_digits 17 (a mod d) d
      in (if n < 0 then ''-'' else []) @ str_nat (a div d) @ ''.'' @
         (if f = [] then ''0'' else f))"

section \<open>The calls a camera object receives\<close>

text \<open>
  The states a camera object can be in: it is constructed, and then its timer fires,
  \<^verbatim>\<open>take_photo\<close> and \<^verbatim>\<open>destroy\<close> are called, and other threads (the idle animation) use
  the pixel array it shares with them. A call that raised or blocked leaves its state
  behind like one that returned.
\<close>

inductive reachable :: "'f float_ops \<Rightarrow> ('f \<Rightarrow> string) \<Rightarrow> 'f camera \<Rightarrow> bool"
  for ops :: "'f float_ops" and str_float :: "'f \<Rightarrow> string" where
  constructed: "Camera_init ops w c res pa = Returns self \<Longrightarrow> reachable ops str_float self"
| fired: "reachable ops str_float self \<Longrightarrow>
     reachable ops str_float (state_of (timer_fires ops w self))"
| photo: "reachable ops str_float self \<Longrightarrow>
     reachable ops str_float (state_of (take_photo str_float w output_path self))"
| destroyed: "reachable ops str_float self \<Longrightarrow>
     reachable ops str_float (state_of (destroy self))"
| pixels_used: "reachable ops str_float self \<Longrightarrow>
     reachable ops str_float (self\<lparr>pixel_array := pa\<rparr>)"

section \<open>Two threads on one camera object\<close>

text \<open>
  The main loop calls \<^verbatim>\<open>take_photo\<close>, the timer's thread calls \<^verbatim>\<open>update_settings\<close>. Both
  methods have the same shape, and a thread is at one of these places of it:
  \<^item> \<open>Outside\<close>: before \<^verbatim>\<open>with self.settings_lock\<close>, or past the end of the block;
  \<^item> \<open>Entered\<close>: inside the block, at the call of \<^verbatim>\<open>flash_on\<close>;
  \<^item> \<open>Operating\<close>: \<^verbatim>\<open>flash_on\<close> has taken the pixel lock; the capture or the calibration runs;
  \<^item> \<open>Returned\<close>: the capture or calibration has returned, \<^verbatim>\<open>flash_off\<close> has not run yet;
  \<^item> \<open>Unlit\<close>: \<^verbatim>\<open>flash_off\<close> has run, the block has not been left yet;
  \<^item> \<open>Raised\<close>: the capture or calibration has raised, the block has not been left yet;
  \<^item> \<open>Dead\<close>: the exception has left the block and ends the thread.
\<close>

datatype actor = MainLoop | TimerThread

datatype place = Outside | Entered | Operating | Returned | Unlit | Raised | Dead

text \<open>
  \<open>slock\<close> is \<^verbatim>\<open>Camera.settings_lock\<close>, \<open>plock\<close> is \<^verbatim>\<open>PixelArray.lock\<close>, and \<open>drawing\<close> says
  that the idle animation is inside its \<^verbatim>\<open>with self.pixel_array.lock\<close>.
\<close>

record sys =
  slock :: bool
  plock :: bool
  loc :: "actor \<Rightarrow> place"
  drawing :: bool

definition sys_init :: sys where
  "sys_init = \<lparr>slock = False, plock = False, loc = (\<lambda>a. Outside), drawing = False\<rparr>"

text \<open>A thread is inside the block from taking the settings lock to giving it back.\<close>

definition inside :: "place \<Rightarrow> bool" where
  "inside p = (p = Entered \<or> p = Operating \<or> p = Returned \<or> p = Unlit \<or> p = Raised)"

text \<open>
  One step of one thread. \<^verbatim>\<open>Lock.acquire()\<close> can be taken only when the lock is free, and
  the step that takes it and the test that it is free are one.
\<close>

inductive step :: "sys \<Rightarrow> sys \<Rightarrow> bool" where
  enter: "loc s a = Outside \<Longrightarrow> \<not> slock s \<Longrightarrow>
     step s (s\<lparr>slock := True, loc := (loc s)(a := Entered)\<rparr>)"
| flash_on: "loc s a = Entered \<Longrightarrow> \<not> plock s \<Longrightarrow>
     step s (s\<lparr>plock := True, loc := (loc s)(a := Operating)\<rparr>)"
| returns: "loc s a = Operating \<Longrightarrow> step s (s\<lparr>loc := (loc s)(a := Returned)\<rparr>)"
| raises: "loc s a = Operating \<Longrightarrow> step s (s\<lparr>loc := (loc s)(a := Raised)\<rparr>)"
| flash_off: "loc s a = Returned \<Longrightarrow>
     step s (s\<lparr>plock := False, loc := (loc s)(a := Unlit)\<rparr>)"
| leave: "loc s a = Unlit \<Longrightarrow> step s (s\<lparr>slock := False, loc := (loc s)(a := Outside)\<rparr>)"
| unwind: "loc s a = Raised \<Longrightarrow> step s (s\<lparr>slock := False, loc := (loc s)(a := Dead)\<rparr>)"
| draw: "\<not> drawing s \<Longrightarrow> \<not> plock s \<Longrightarrow> step s (s\<lparr>plock := True, drawing := True\<rparr>)"
| drawn: "drawing s \<Longrightarrow> step s (s\<lparr>plock := False, drawing := False\<rparr>)"

inductive reachable_sys :: "sys \<Rightarrow> bool" where
  start: "reachable_sys sys_init"
| next_step: "reachable_sys s \<Longrightarrow> step s s' \<Longrightarrow> reachable_sys s'"

text \<open>The main loop is in its capture, the timer's thread has not entered.\<close>

definition capturing :: sys where
  "capturing =
     \<lparr>slock = True, plock = True, loc = (\<lambda>a. Outside)(MainLoop := Operating),
      drawing = False\<rparr>"

section \<open>An example run\<close>

text \<open>
  \<open>nl\<close> is what \<^verbatim>\<open>str\<close> writes for a line feed inside \<^verbatim>\<open>bytes\<close>: a backslash and the
  letter n.
\<close>

definition nl :: string where
  "nl = [CHR 0x5C, CHR ''n'']"

definition example_stderr :: string where
  "example_stderr =
     ''mmal: Exposure now 1200, analog gain 100/50, digital gain 10/10'' @ nl @
     ''mmal: AWB R=300/256, B=400/256'' @ nl @
     ''mmal: Exposure now 1500, analog gain 120/60, digital gain 20/10'' @ nl @
     ''mmal: AWB R=384/256, B=512/256'' @ nl"

definition example_world :: world where
  "example_world =
     \<lparr>tool_stderr = Inr example_stderr,
      camera_reading = Inr (33000, [3 / 2, 2]),
      capture_error = None\<rparr>"

text \<open>A diagnostic stream without a single line of either kind.\<close>

definition silent_world :: world where
  "silent_world =
     \<lparr>tool_stderr = Inr ''mmal: Cannot read camera info, keeping the defaults for OV5647'',
      camera_reading = Inl PiCameraError,
      capture_error = Some OSError\<rparr>"

text \<open>The camera object of \<^verbatim>\<open>__main__\<close> before \<^verbatim>\<open>__init__\<close> calls \<^verbatim>\<open>update_settings\<close>.\<close>

definition new_camera :: "camera_class \<Rightarrow> rat camera" where
  "new_camera c =
     \<lparr>cls = c, resolution = (951, 1268), pixel_array = PixelArray_init NUM_PIXELS,
      settings_lock = False, settings = None, settings_update_timer = None, effects = []\<rparr>"

text \<open>
  The camera object of \<^verbatim>\<open>__main__\<close> once \<^verbatim>\<open>__init__\<close> has returned, in the world of
  \<open>example_world\<close>.
\<close>

definition example_settings :: "rat settings" where
  "example_settings =
     [(''analog_gain'', PyFloat 2), (''digital_gain'', PyFloat 2),
      (''shutter_speed'', PyFloat 1500),
      (''awb_gains'', PyList [PyFloat (3 / 2), PyFloat 2])]"

definition example_camera :: "rat camera" where
  "example_camera =
     \<lparr>cls = RaspiStillCamera, resolution = (951, 1268),
      pixel_array =
        \<lparr>num_pixels = NUM_PIXELS, lock = False, brightness = IDLE_BRIGHTNESS,
         pixels = replicate NUM_PIXELS (0, 0, 0),
         events = [SetBrightness FLASH_BRIGHTNESS, Fill (255, 255, 255), Show,
                   SetBrightness IDLE_BRIGHTNESS, Fill (0, 0, 0), Show]\<rparr>,
      settings_lock = False,
      settings = Some example_settings,
      settings_update_timer = Some \<lparr>interval = 600, tstate = Pending\<rparr>,
      effects =
        [ShellCall ''chvt 6'', ShellCall ''chvt 7'',
         Run [''raspistill'', ''--width'', ''951'', ''--height'', ''1268'',
              ''--nopreview'', ''--settings''],
         ShellCall ''tvservice -p'']\<rparr>"

text \<open>Streams with both lines, one with a gain over zero and one without any digit.\<close>

definition zero_gain_stderr :: string where
  "zero_gain_stderr =
     ''mmal: Exposure now 1500, analog gain 120/0, digital gain 20/10'' @ nl @
     ''mmal: AWB R=384/256, B=512/256'' @ nl"

definition no_digits_stderr :: string where
  "no_digits_stderr =
     ''mmal: Exposure now , analog gain /, digital gain /'' @ nl @
     ''mmal: AWB R=384/256, B=512/256'' @ nl"

section \<open>Facts about the patterns\<close>

lemma backtrack_Some:
  "backtrack cont s n = Some (k, r) \<Longrightarrow> k \<le> n \<and> cont (drop k s) = Some r"
  by (induction n) (auto split: option.splits)

lemma take_digits:
  assumes "k \<le> length (takeWhile P s)"
  shows "list_all P (take k s)"
proof -
  have "take k s = take k (takeWhile P s)"
    using assms by (metis takeWhile_dropWhile_id take_append diff_is_0_eq take_0 append_Nil2)
  moreover have "list_all P (takeWhile P s)"
    by (simp add: list_all_iff) (meson set_takeWhileD)
  ultimately show ?thesis
    by (metis list_all_iff in_set_takeD)
qed

lemma match_at_groups:
  "match_at p s = Some (gs, r) \<Longrightarrow>
     map fst gs = group_names p \<and> (\<forall>v \<in> snd ` set gs. list_all is_digit v)"
proof (induction p arbitrary: s gs r)
  case Nil
  then show ?case by simp
next
  case (Cons t p)
  show ?case
  proof (cases t)
    case (Lit l)
    with Cons show ?thesis by (auto split: if_splits)
  next
    case (Grp g)
    with Cons.prems obtain n gs' where
      bt: "backtrack (match_at p) s (length (takeWhile is_digit s)) = Some (n, gs', r)"
      and gs: "gs = (g, take n s) # gs'"
      by (auto split: option.splits)
    from backtrack_Some [OF bt] have n: "n \<le> length (takeWhile is_digit s)"
      and m: "match_at p (drop n s) = Some (gs', r)" by auto
    from Cons.IH [OF m] take_digits [OF n] gs Grp show ?thesis by auto
  qed
qed

lemma finditer_None:
  "match_at p s = None \<Longrightarrow> finditer p s = (case s of [] \<Rightarrow> [] | c # t \<Rightarrow> finditer p t)"
  by (subst finditer.simps) simp

lemma finditer_Some:
  "match_at p s = Some (gs, r) \<Longrightarrow>
     finditer p s =
       gs # (if length r < length s then finditer p r
             else (case s of [] \<Rightarrow> [] | c # t \<Rightarrow> finditer p t))"
  by (subst finditer.simps) simp

lemma finditer_groups:
  "m \<in> set (finditer p s) \<Longrightarrow>
     map fst m = group_names p \<and> (\<forall>v \<in> snd ` set m. list_all is_digit v)"
proof (induction s arbitrary: m rule: length_induct)
  case (1 s)
  show ?case
  proof (cases "match_at p s")
    case None
    with "1.prems" have "m \<in> set (case s of [] \<Rightarrow> [] | c # t \<Rightarrow> finditer p t)"
      by (simp add: finditer_None)
    with "1.IH" show ?thesis
      by (cases s) auto
  next
    case (Some a)
    obtain gs r where a: "a = (gs, r)" by (cases a)
    note eq = finditer_Some [OF Some [unfolded a]]
    show ?thesis
    proof (cases "m = gs")
      case True
      with Some a match_at_groups show ?thesis by blast
    next
      case False
      show ?thesis
      proof (cases "length r < length s")
        case True
        with False "1.prems" eq have "m \<in> set (finditer p r)" by simp
        with True "1.IH" show ?thesis by blast
      next
        case nl: False
        with False "1.prems" eq
        have "m \<in> set (case s of [] \<Rightarrow> [] | c # t \<Rightarrow> finditer p t)"
          by simp
        with "1.IH" show ?thesis
          by (cases s) auto
      qed
    qed
  qed
qed

lemma find_last_match_empty:
  "finditer p s = [] \<Longrightarrow> find_last_match p s = Inl IndexError"
  by (simp add: find_last_match_def truthy_iterator_def)

lemma find_last_match_last:
  "finditer p s = ms @ [m] \<Longrightarrow> find_last_match p s = Inr (Some m)"
  by (cases ms) (simp_all add: find_last_match_def truthy_iterator_def)

lemma exposure_match_shape:
  assumes "finditer exposure_pattern s = ms @ [m]"
  obtains e an ad dn dd where
    "m = [(''exposure'', e), (''analog_gain_n'', an), (''analog_gain_d'', ad),
          (''digital_gain_n'', dn), (''digital_gain_d'', dd)]"
    and "list_all is_digit e" "list_all is_digit an" "list_all is_digit ad"
    and "list_all is_digit dn" "list_all is_digit dd"
proof -
  have "m \<in> set (finditer exposure_pattern s)" using assms by simp
  from finditer_groups [OF this]
  have names: "map fst m = [''exposure'', ''analog_gain_n'', ''analog_gain_d'',
      ''digital_gain_n'', ''digital_gain_d'']"
    and digits: "\<forall>v \<in> snd ` set m. list_all is_digit v"
    by (simp_all add: exposure_pattern_def)
  from names obtain x1 x2 x3 x4 x5 where m: "m = [x1, x2, x3, x4, x5]"
    by (auto simp: map_eq_Cons_conv)
  with names digits that [of "snd x1" "snd x2" "snd x3" "snd x4" "snd x5"]
  show thesis by (cases x1, cases x2, cases x3, cases x4, cases x5) simp
qed

lemma awb_match_shape:
  assumes "finditer awb_pattern s = ms @ [m]"
  obtains rn rd bn bd where
    "m = [(''awb_r_n'', rn), (''awb_r_d'', rd), (''awb_b_n'', bn), (''awb_b_d'', bd)]"
    and "list_all is_digit rn" "list_all is_digit rd"
    and "list_all is_digit bn" "list_all is_digit bd"
proof -
  have "m \<in> set (finditer awb_pattern s)" using assms by simp
  from finditer_groups [OF this]
  have names: "map fst m = [''awb_r_n'', ''awb_r_d'', ''awb_b_n'', ''awb_b_d'']"
    and digits: "\<forall>v \<in> snd ` set m. list_all is_digit v"
    by (simp_all add: awb_pattern_def)
  from names obtain x1 x2 x3 x4 where m: "m = [x1, x2, x3, x4]"
    by (auto simp: map_eq_Cons_conv)
  with names digits that [of "snd x1" "snd x2" "snd x3" "snd x4"]
  show thesis by (cases x1, cases x2, cases x3, cases x4) simp
qed

lemma raspistill_calibration:
  "cls self = RaspiStillCamera \<Longrightarrow> tool_stderr w = Inr stderr \<Longrightarrow>
     snd (update_capture_settings ops w self) = parse_settings ops stderr"
  by (simp add: update_capture_settings_def RaspiStillCamera_update_capture_settings_def Let_def)

lemma group_ratio_digits:
  assumes "map_of m n = Some a" "map_of m d = Some b"
    and "a \<noteq> []" "b \<noteq> []" "list_all is_digit a" "list_all is_digit b" "\<not> all_zeros b"
  shows "group_ratio ops (Some m) n d = Inr (truediv ops (of_digits ops a) (of_digits ops b))"
  using assms
  by (simp add: group_ratio_def group_float_def match_group_def group_def py_float_def)

lemma group_float_digits:
  assumes "map_of m n = Some a" "a \<noteq> []" "list_all is_digit a"
  shows "group_float ops (Some m) n = Inr (of_digits ops a)"
  using assms by (simp add: group_float_def match_group_def group_def py_float_def)

lemma ex_exposure: "finditer exposure_pattern example_stderr =
  [[(''exposure'', ''1200''), (''analog_gain_n'', ''100''), (''analog_gain_d'', ''50''),
    (''digital_gain_n'', ''10''), (''digital_gain_d'', ''10'')]] @
  [[(''exposure'', ''1500''), (''analog_gain_n'', ''120''), (''analog_gain_d'', ''60''),
    (''digital_gain_n'', ''20''), (''digital_gain_d'', ''10'')]]"
  by code_simp

lemma ex_awb: "finditer awb_pattern example_stderr =
  [[(''awb_r_n'', ''300''), (''awb_r_d'', ''256''), (''awb_b_n'', ''400''),
    (''awb_b_d'', ''256'')]] @
  [[(''awb_r_n'', ''384''), (''awb_r_d'', ''256''), (''awb_b_n'', ''512''),
   (''awb_b_d'', ''256'')]]"
  by code_simp

section \<open>Facts about the flash and the two methods\<close>

lemma flash_on_free:
  "\<not> lock pa \<Longrightarrow>
     flash_on False pa =
       Returns (pa\<lparr>lock := True, brightness := FLASH_BRIGHTNESS,
                  pixels := replicate (num_pixels pa) (255, 255, 255),
                  events := events pa @
                    [SetBrightness FLASH_BRIGHTNESS, Fill (255, 255, 255), Show]\<rparr>)"
  by (simp add: flash_on_def set_brightness_def pixels_fill_def pixels_show_def)

lemma flash_on_countdown:
  "\<not> lock pa \<Longrightarrow>
     flash_on True pa =
       Returns (pa\<lparr>lock := True, brightness := FLASH_BRIGHTNESS,
                  pixels := replicate (num_pixels pa) (255, 255, 255),
                  events := events pa @ SetBrightness FLASH_BRIGHTNESS #
                    concat (replicate 3
                      [Fill (255, 0, 0), Show, Sleep (1 / 2), Fill (0, 0, 0), Show, Sleep 1]) @
                    [Fill (255, 255, 255), Show]\<rparr>)"
  by (simp add: flash_on_def set_brightness_def pixels_fill_def pixels_show_def
      time_sleep_def numeral_3_eq_3)

lemma flash_off_held:
  "lock pa \<Longrightarrow>
     flash_off pa =
       Returns (pa\<lparr>lock := False, brightness := IDLE_BRIGHTNESS,
                  pixels := replicate (num_pixels pa) (0, 0, 0),
                  events := events pa @
                    [SetBrightness IDLE_BRIGHTNESS, Fill (0, 0, 0), Show]\<rparr>)"
  by (simp add: flash_off_def set_brightness_def pixels_fill_def pixels_show_def)

lemma flash_on_held: "lock pa \<Longrightarrow> flash_on c pa = Blocks pa"
  by (simp add: flash_on_def)

lemma update_capture_settings_cong:
  "cls a = cls b \<Longrightarrow> resolution a = resolution b \<Longrightarrow>
     update_capture_settings ops w a = update_capture_settings ops w b"
  by (simp add: update_capture_settings_def PyCamera_update_capture_settings_def
      RaspiStillCamera_update_capture_settings_def
      cong: camera_class.case_cong sum.case_cong)

lemma capture_image_cong:
  "cls a = cls b \<Longrightarrow> resolution a = resolution b \<Longrightarrow> settings a = settings b \<Longrightarrow>
     capture_image sf w path a = capture_image sf w path b"
  by (simp add: capture_image_def PyCamera_capture_image_def
      RaspiStillCamera_capture_image_def
      cong: camera_class.case_cong option.case_cong sum.case_cong)

lemma update_capture_settings_locks [simp]:
  "update_capture_settings ops w (self\<lparr>pixel_array := pa\<rparr>) =
     update_capture_settings ops w self"
  "update_capture_settings ops w (self\<lparr>settings_lock := b\<rparr>) =
     update_capture_settings ops w self"
  "update_capture_settings ops w (self\<lparr>settings_update_timer := t\<rparr>) =
     update_capture_settings ops w self"
  by (rule update_capture_settings_cong; simp)+

lemma capture_image_locks [simp]:
  "capture_image sf w path (self\<lparr>pixel_array := pa\<rparr>) = capture_image sf w path self"
  "capture_image sf w path (self\<lparr>settings_lock := b\<rparr>) = capture_image sf w path self"
  by (rule capture_image_cong; simp)+

lemma update_settings_raises:
  assumes "\<not> settings_lock self" and "\<not> lock (pixel_array self)"
    and "update_capture_settings ops w self = (fx, Inl e)"
  shows "update_settings ops w self =
     Raises e (self\<lparr>pixel_array := state_of (flash_on False (pixel_array self)),
                     effects := effects self @ fx\<rparr>)"
  using assms by (simp add: update_settings_def flash_on_free)

lemma update_settings_stores:
  assumes "\<not> settings_lock self" and "\<not> lock (pixel_array self)"
    and "update_capture_settings ops w self = (fx, Inr st)"
  shows "update_settings ops w self =
     (let self' = self\<lparr>pixel_array :=
                   state_of (flash_off (state_of (flash_on False (pixel_array self)))),
                 effects := effects self @ fx, settings := Some st\<rparr>
      in case print_settings st of
           Some e \<Rightarrow> Raises e self'
         | None \<Rightarrow> Returns (self'\<lparr>settings_update_timer :=
             Some \<lparr>interval = SETTINGS_UPDATE_INTERVAL, tstate = Pending\<rparr>\<rparr>))"
  using assms
  by (simp add: update_settings_def flash_on_free flash_off_held Let_def
      split: option.splits)

lemma take_photo_raises:
  assumes "\<not> settings_lock self" and "\<not> lock (pixel_array self)"
    and "capture_image sf w path self = (fx, Some e)"
  shows "take_photo sf w path self =
     Raises e (self\<lparr>pixel_array := state_of (flash_on True (pixel_array self)),
                     effects := effects self @ fx\<rparr>)"
  using assms by (simp add: take_photo_def flash_on_countdown)

lemma take_photo_returns:
  assumes "\<not> settings_lock self" and "\<not> lock (pixel_array self)"
    and "capture_image sf w path self = (fx, None)"
  shows "take_photo sf w path self =
     Returns (self\<lparr>pixel_array :=
                   state_of (flash_off (state_of (flash_on True (pixel_array self)))),
                 effects := effects self @ fx\<rparr>)"
  using assms by (simp add: take_photo_def flash_on_countdown flash_off_held)

lemma lit_after_flash_on:
  "\<not> lock pa \<Longrightarrow> held_lit (state_of (flash_on c pa))"
  by (cases c) (simp_all add: flash_on_free flash_on_countdown held_lit_def)

lemma idle_after_flash_off:
  "\<not> lock pa \<Longrightarrow> released_idle (state_of (flash_off (state_of (flash_on c pa))))"
  by (cases c) (simp_all add: flash_on_free flash_on_countdown flash_off_held released_idle_def)

lemma find_last_match_error:
  "find_last_match p s = Inl e \<Longrightarrow> e = IndexError"
  by (auto simp: find_last_match_def truthy_iterator_def Let_def split: list.splits)

section \<open>Facts about the example\<close>

lemma silent_exposure:
  "finditer exposure_pattern
     ''mmal: Cannot read camera info, keeping the defaults for OV5647'' = []"
  by code_simp

lemma str_int_examples: "str_int 951 = ''951''" "str_int 1268 = ''1268''"
  by code_simp+

lemma str_exact_examples:
  "str_exact 2 = ''2.0''" "str_exact 1500 = ''1500.0''" "str_exact (3 / 2) = ''1.5''"
  by code_simp+

lemma example_parse: "parse_settings exact_ops example_stderr = Inr example_settings"
  by (simp add: parse_settings_def find_last_match_last [OF ex_exposure]
      find_last_match_last [OF ex_awb] settings_of_matches_def group_ratio_def
      group_float_def match_group_def group_def py_float_def all_zeros_def is_digit_def
      exact_ops_def nat_of_digits_def example_settings_def)

lemma example_calibration:
  assumes "cls self = RaspiStillCamera" and "resolution self = (951, 1268)"
  shows "update_capture_settings exact_ops example_world self =
     ([ShellCall ''chvt 6'', ShellCall ''chvt 7'',
       Run [''raspistill'', ''--width'', ''951'', ''--height'', ''1268'',
            ''--nopreview'', ''--settings''],
       ShellCall ''tvservice -p''], Inr example_settings)"
  using assms
  by (simp add: update_capture_settings_def RaspiStillCamera_update_capture_settings_def
      example_world_def example_parse str_int_examples)

lemma silent_calibration:
  assumes "cls self = RaspiStillCamera" and "resolution self = (951, 1268)"
  shows "update_capture_settings exact_ops silent_world self =
     ([ShellCall ''chvt 6'', ShellCall ''chvt 7'',
       Run [''raspistill'', ''--width'', ''951'', ''--height'', ''1268'',
            ''--nopreview'', ''--settings''],
       ShellCall ''tvservice -p''], Inl IndexError)"
  using assms
  by (simp add: update_capture_settings_def RaspiStillCamera_update_capture_settings_def
      silent_world_def parse_settings_def find_last_match_empty [OF silent_exposure]
      str_int_examples)

lemma example_print: "print_settings example_settings = None"
  by (simp add: print_settings_def dict_get_def example_settings_def)

lemma example_camera_constructed:
  "Camera_init exact_ops example_world RaspiStillCamera (951, 1268)
     (PixelArray_init NUM_PIXELS) = Returns example_camera"
proof -
  let ?new = "\<lparr>cls = RaspiStillCamera, resolution = (951, 1268),
      pixel_array = PixelArray_init NUM_PIXELS, settings_lock = False,
      settings = None, settings_update_timer = None, effects = []\<rparr> :: rat camera"
  have free: "\<not> settings_lock ?new" "\<not> lock (pixel_array ?new)"
    by (simp_all add: PixelArray_init_def)
  have cal: "update_capture_settings exact_ops example_world ?new =
     ([ShellCall ''chvt 6'', ShellCall ''chvt 7'',
       Run [''raspistill'', ''--width'', ''951'', ''--height'', ''1268'',
            ''--nopreview'', ''--settings''],
       ShellCall ''tvservice -p''], Inr example_settings)"
    by (rule example_calibration) simp_all
  show ?thesis
    unfolding Camera_init_def update_settings_stores [OF free cal]
    by (simp add: example_print example_camera_def PixelArray_init_def flash_on_free
        flash_off_held SETTINGS_UPDATE_INTERVAL_def)
qed

lemma example_camera_fields:
  "cls example_camera = RaspiStillCamera"
  "resolution example_camera = (951, 1268)"
  "\<not> settings_lock example_camera"
  "\<not> lock (pixel_array example_camera)"
  "settings example_camera = Some example_settings"
  by (simp_all add: example_camera_def)

lemma example_capture:
  "capture_image str_exact w ''photo.jpg'' example_camera =
     ([Call [''raspistill'', ''--output'', ''photo.jpg'', ''--thumb'', ''none'',
             ''--width'', ''951'', ''--height'', ''1268'',
             ''--analoggain'', ''2.0'', ''--digitalgain'', ''2.0'',
             ''--exposure'', ''off'', ''--shutter'', ''1500.0'',
             ''--awb'', ''off'', ''--awbgains'', ''1.5,2.0'',
             ''--timeout'', ''1'', ''--nopreview'', ''--verbose'']],
      capture_error w)"
  by (simp add: capture_image_def RaspiStillCamera_capture_image_def example_camera_def
      example_settings_def dict_get_def str_each_def str_int_examples str_exact_examples)

section \<open>Facts about the cached settings\<close>

lemma update_settings_frame:
  "cls (state_of (update_settings ops w self)) = cls self \<and>
   resolution (state_of (update_settings ops w self)) = resolution self"
  by (simp add: update_settings_def Let_def
      split: outcome.splits prod.splits sum.splits option.splits)

lemma update_settings_settings:
  "settings (state_of (update_settings ops w self)) = settings self \<or>
   (\<exists>st. snd (update_capture_settings ops w self) = Inr st \<and>
      settings (state_of (update_settings ops w self)) = Some st)"
  by (auto simp: update_settings_def Let_def
      split: outcome.splits prod.splits sum.splits option.splits)

lemma update_settings_Returns:
  assumes "update_settings ops w self = Returns self'"
  shows "\<exists>st. snd (update_capture_settings ops w self) = Inr st \<and>
     settings self' = Some st \<and>
     effects self' = effects self @ fst (update_capture_settings ops w self) \<and>
     settings_update_timer self' =
       Some \<lparr>interval = SETTINGS_UPDATE_INTERVAL, tstate = Pending\<rparr>"
  using assms
  by (auto simp: update_settings_def Let_def
      split: if_splits outcome.splits prod.splits sum.splits option.splits)

lemma take_photo_frame:
  "cls (state_of (take_photo sf w path self)) = cls self \<and>
   resolution (state_of (take_photo sf w path self)) = resolution self \<and>
   settings (state_of (take_photo sf w path self)) = settings self \<and>
   settings_update_timer (state_of (take_photo sf w path self)) = settings_update_timer self"
  by (simp add: take_photo_def Let_def
      split: outcome.splits prod.splits option.splits)

lemma destroy_frame:
  "cls (state_of (destroy self)) = cls self \<and>
   resolution (state_of (destroy self)) = resolution self \<and>
   settings (state_of (destroy self)) = settings self \<and>
   pixel_array (state_of (destroy self)) = pixel_array self \<and>
   settings_lock (state_of (destroy self)) = settings_lock self \<and>
   effects (state_of (destroy self)) = effects self"
  by (simp add: destroy_def split: option.splits)

lemma timer_fires_frame:
  "cls (state_of (timer_fires ops w self)) = cls self \<and>
   resolution (state_of (timer_fires ops w self)) = resolution self"
  by (simp add: timer_fires_def update_settings_frame split: option.splits)

lemma timer_fires_settings:
  "settings (state_of (timer_fires ops w self)) = settings self \<or>
   (\<exists>st. snd (update_capture_settings ops w self) = Inr st \<and>
      settings (state_of (timer_fires ops w self)) = Some st)"
proof (cases "settings_update_timer self")
  case None
  then show ?thesis by (simp add: timer_fires_def)
next
  case (Some t)
  show ?thesis
  proof (cases "tstate t = Pending")
    case True
    with Some update_settings_settings
      [of ops w "self\<lparr>settings_update_timer := Some (t\<lparr>tstate := Fired\<rparr>)\<rparr>"]
    show ?thesis by (simp add: timer_fires_def)
  next
    case False
    with Some show ?thesis by (simp add: timer_fires_def)
  qed
qed

lemma settings_of_matches_keys:
  "settings_of_matches ops m1 m2 = Inr st \<Longrightarrow>
     map fst st = [''analog_gain'', ''digital_gain'', ''shutter_speed'', ''awb_gains'']"
  by (auto simp: settings_of_matches_def split: sum.splits)

lemma calibration_keys:
  assumes "snd (update_capture_settings ops w self) = Inr st"
  shows "map fst st = [''analog_gain'', ''digital_gain'', ''shutter_speed'', ''awb_gains'']"
proof (cases "cls self")
  case Camera
  with assms show ?thesis by (simp add: update_capture_settings_def)
next
  case PyCamera
  with assms show ?thesis
    by (auto simp: update_capture_settings_def PyCamera_update_capture_settings_def
        split: sum.splits)
next
  case RaspiStillCamera
  with assms show ?thesis
    by (auto simp: update_capture_settings_def RaspiStillCamera_update_capture_settings_def
        parse_settings_def Let_def
        split: sum.splits dest: settings_of_matches_keys)
qed

lemma reachable_settings:
  assumes "reachable ops str_float self"
  shows "\<exists>st w0. settings self = Some st \<and>
     snd (update_capture_settings ops w0 self) = Inr st"
  using assms
proof (induction rule: reachable.induct)
  case (constructed w c res pa self)
  from update_settings_Returns [OF constructed [unfolded Camera_init_def]]
    update_settings_frame [of ops w "\<lparr>cls = c, resolution = res, pixel_array = pa,
      settings_lock = False, settings = None, settings_update_timer = None, effects = []\<rparr>"]
  show ?case
    unfolding constructed [unfolded Camera_init_def] state_of.simps
    by (metis update_capture_settings_cong)
next
  case (fired self w)
  then obtain st w0 where st: "settings self = Some st"
    "snd (update_capture_settings ops w0 self) = Inr st" by blast
  have same: "update_capture_settings ops w' (state_of (timer_fires ops w self)) =
      update_capture_settings ops w' self" for w'
    using timer_fires_frame [of ops w self] by (intro update_capture_settings_cong) simp_all
  from timer_fires_settings [of ops w self] st show ?case
    unfolding same by metis
next
  case (photo self w output_path)
  then obtain st w0 where st: "settings self = Some st"
    "snd (update_capture_settings ops w0 self) = Inr st" by blast
  have same: "update_capture_settings ops w'
      (state_of (take_photo str_float w output_path self)) =
      update_capture_settings ops w' self" for w'
    using take_photo_frame [of str_float w output_path self]
    by (intro update_capture_settings_cong) simp_all
  from take_photo_frame [of str_float w output_path self] st show ?case
    unfolding same by metis
next
  case (destroyed self)
  then obtain st w0 where st: "settings self = Some st"
    "snd (update_capture_settings ops w0 self) = Inr st" by blast
  have same: "update_capture_settings ops w' (state_of (destroy self)) =
      update_capture_settings ops w' self" for w'
    using destroy_frame [of self] by (intro update_capture_settings_cong) simp_all
  from destroy_frame [of self] st show ?case
    unfolding same by metis
next
  case (pixels_used self pa)
  then show ?case by simp
qed

section \<open>Facts about the two threads\<close>

lemma step_keeps_exclusion:
  assumes "step s s'"
    and "slock s = (inside (loc s MainLoop) \<or> inside (loc s TimerThread))"
    and "\<not> (inside (loc s MainLoop) \<and> inside (loc s TimerThread))"
  shows "slock s' = (inside (loc s' MainLoop) \<or> inside (loc s' TimerThread)) \<and>
     \<not> (inside (loc s' MainLoop) \<and> inside (loc s' TimerThread))"
  using assms
proof (induction rule: step.induct)
  case (enter s a)
  then show ?case by (cases a) (auto simp: inside_def)
next
  case (flash_on s a)
  then show ?case by (cases a) (auto simp: inside_def)
next
  case (returns s a)
  then show ?case by (cases a) (auto simp: inside_def)
next
  case (raises s a)
  then show ?case by (cases a) (auto simp: inside_def)
next
  case (flash_off s a)
  then show ?case by (cases a) (auto simp: inside_def)
next
  case (leave s a)
  then show ?case by (cases a) (auto simp: inside_def)
next
  case (unwind s a)
  then show ?case by (cases a) (auto simp: inside_def)
next
  case (draw s)
  then show ?case by simp
next
  case (drawn s)
  then show ?case by simp
qed

lemma reachable_exclusion:
  assumes "reachable_sys s"
  shows "slock s = (inside (loc s MainLoop) \<or> inside (loc s TimerThread)) \<and>
     \<not> (inside (loc s MainLoop) \<and> inside (loc s TimerThread))"
  using assms
proof (induction rule: reachable_sys.induct)
  case start
  show ?case by (simp add: sys_init_def inside_def)
next
  case (next_step s s')
  from step_keeps_exclusion [OF next_step(2)] next_step(3) show ?case by blast
qed

lemma step_moves_one:
  assumes "step s s'"
  shows "loc s' MainLoop = loc s MainLoop \<or> loc s' TimerThread = loc s TimerThread"
  using assms by (induction rule: step.induct) (auto split: if_splits)

lemma blocked_outside:
  assumes "step s s'" and "slock s" and "loc s b = Outside"
  shows "loc s' b = Outside"
  using assms by (induction rule: step.induct) (auto split: if_splits)

section \<open>The properties\<close>

subsection \<open>Releasing the indicator\<close>

text \<open>
  \<^bold>\<open>C1\<close>, as the code has it. \<^verbatim>\<open>take_photo\<close> and \<^verbatim>\<open>update_settings\<close> are entered with both
  locks free. When the capture or the calibration returns, \<^verbatim>\<open>flash_off\<close> has run and the
  block has been left: the pixel lock is free, the strip is black at idle brightness, and
  the settings lock is free. When the capture or the calibration raises, the call raises the
  same exception and the \<^verbatim>\<open>with\<close> statement gives the settings lock back.
\<close>

theorem flash_off_after_return:
  assumes "\<not> settings_lock self" and "\<not> lock (pixel_array self)"
  shows
    "(\<forall>st. snd (update_capture_settings ops w self) = Inr st \<longrightarrow>
        \<not> settings_lock (state_of (update_settings ops w self)) \<and>
        released_idle (pixel_array (state_of (update_settings ops w self)))) \<and>
     (snd (capture_image str_float w output_path self) = None \<longrightarrow>
        raised (take_photo str_float w output_path self) = None \<and>
        \<not> settings_lock (state_of (take_photo str_float w output_path self)) \<and>
        released_idle (pixel_array (state_of (take_photo str_float w output_path self)))) \<and>
     (\<forall>e. snd (update_capture_settings ops w self) = Inl e \<longrightarrow>
        raised (update_settings ops w self) = Some e \<and>
        \<not> settings_lock (state_of (update_settings ops w self))) \<and>
     (\<forall>e. snd (capture_image str_float w output_path self) = Some e \<longrightarrow>
        raised (take_photo str_float w output_path self) = Some e \<and>
        \<not> settings_lock (state_of (take_photo str_float w output_path self)))"
proof (intro conjI allI impI)
  fix e assume "snd (update_capture_settings ops w self) = Inl e"
  then obtain fx where "update_capture_settings ops w self = (fx, Inl e)"
    by (cases "update_capture_settings ops w self") simp
  note r = update_settings_raises [OF assms this]
  show "raised (update_settings ops w self) = Some e"
    and "\<not> settings_lock (state_of (update_settings ops w self))"
    using assms by (simp_all add: r)
next
  fix e assume "snd (capture_image str_float w output_path self) = Some e"
  then obtain fx where "capture_image str_float w output_path self = (fx, Some e)"
    by (cases "capture_image str_float w output_path self") simp
  note r = take_photo_raises [OF assms this]
  show "raised (take_photo str_float w output_path self) = Some e"
    and "\<not> settings_lock (state_of (take_photo str_float w output_path self))"
    using assms by (simp_all add: r)
next
  fix st assume "snd (update_capture_settings ops w self) = Inr st"
  then obtain fx where "update_capture_settings ops w self = (fx, Inr st)"
    by (cases "update_capture_settings ops w self") simp
  note r = update_settings_stores [OF assms this]
  show "\<not> settings_lock (state_of (update_settings ops w self))"
    and "released_idle (pixel_array (state_of (update_settings ops w self)))"
    using assms idle_after_flash_off [OF assms(2)]
    by (simp_all add: r Let_def split: option.splits)
next
  assume "snd (capture_image str_float w output_path self) = None"
  then obtain fx where "capture_image str_float w output_path self = (fx, None)"
    by (cases "capture_image str_float w output_path self") simp
  note r = take_photo_returns [OF assms this]
  show "raised (take_photo str_float w output_path self) = None"
    and "\<not> settings_lock (state_of (take_photo str_float w output_path self))"
    and "released_idle (pixel_array (state_of (take_photo str_float w output_path self)))"
    using assms idle_after_flash_off [OF assms(2)] by (simp_all add: r)
qed

text \<open>
  The example camera with a capture that returns, and with a calibration that raises.
\<close>

theorem flash_off_after_return_witness:
  "\<not> settings_lock example_camera \<and>
   \<not> lock (pixel_array example_camera) \<and>
   snd (capture_image str_exact example_world ''photo.jpg'' example_camera) = None \<and>
   raised (take_photo str_exact example_world ''photo.jpg'' example_camera) = None \<and>
   \<not> settings_lock
     (state_of (take_photo str_exact example_world ''photo.jpg'' example_camera)) \<and>
   released_idle
     (pixel_array (state_of (take_photo str_exact example_world ''photo.jpg'' example_camera))) \<and>
   snd (update_capture_settings exact_ops silent_world example_camera) = Inl IndexError \<and>
   raised (update_settings exact_ops silent_world example_camera) = Some IndexError \<and>
   \<not> settings_lock (state_of (update_settings exact_ops silent_world example_camera))"
proof -
  note free = example_camera_fields(3,4)
  have fails: "snd (update_capture_settings exact_ops silent_world example_camera) =
      Inl IndexError"
    by (simp add: silent_calibration example_camera_fields)
  have works: "snd (capture_image str_exact example_world ''photo.jpg'' example_camera) = None"
    by (simp add: example_capture example_world_def)
  from flash_off_after_return [OF free, of exact_ops silent_world str_exact "''photo.jpg''"] fails
    flash_off_after_return [OF free, of exact_ops example_world str_exact "''photo.jpg''"] works free
  show ?thesis by simp
qed

text \<open>
  \<^bold>\<open>C1\<close> as stated fails: on the example camera a calibration that raises \<^verbatim>\<open>IndexError\<close> and
  a capture that raises \<^verbatim>\<open>OSError\<close> both leave the pixel lock held and the strip white at
  flash brightness, since \<^verbatim>\<open>flash_off\<close> has not run.
\<close>

theorem failed_operation_keeps_pixel_lock:
  "\<not> settings_lock example_camera \<and>
   \<not> lock (pixel_array example_camera) \<and>
   raised (update_settings exact_ops silent_world example_camera) = Some IndexError \<and>
   held_lit (pixel_array (state_of (update_settings exact_ops silent_world example_camera))) \<and>
   raised (take_photo str_exact silent_world ''photo.jpg'' example_camera) = Some OSError \<and>
   held_lit
     (pixel_array (state_of (take_photo str_exact silent_world ''photo.jpg'' example_camera)))"
proof -
  note free = example_camera_fields(3,4)
  have u: "update_capture_settings exact_ops silent_world example_camera =
     ([ShellCall ''chvt 6'', ShellCall ''chvt 7'',
       Run [''raspistill'', ''--width'', ''951'', ''--height'', ''1268'',
            ''--nopreview'', ''--settings''],
       ShellCall ''tvservice -p''], Inl IndexError)"
    by (rule silent_calibration) (simp_all add: example_camera_fields)
  have t: "capture_image str_exact silent_world ''photo.jpg'' example_camera =
     (fst (capture_image str_exact silent_world ''photo.jpg'' example_camera), Some OSError)"
    by (simp add: example_capture silent_world_def)
  show ?thesis
    using free lit_after_flash_on [OF free(2)]
    by (simp add: update_settings_raises [OF free u] take_photo_raises [OF free t])
qed

subsection \<open>A stream without the lines\<close>

text \<open>
  \<^bold>\<open>C2\<close>, as the code has it. When the diagnostic stream lacks a match of either pattern,
  the calibration of \<^verbatim>\<open>RaspiStillCamera\<close> raises \<^verbatim>\<open>IndexError\<close>, and \<^verbatim>\<open>update_settings\<close>,
  entered with both locks free, raises it too and leaves \<^verbatim>\<open>self.settings\<close> as it was.
\<close>

theorem missing_pattern_raises_IndexError:
  assumes "cls self = RaspiStillCamera"
    and "tool_stderr w = Inr stderr"
    and "finditer exposure_pattern stderr = [] \<or> finditer awb_pattern stderr = []"
    and "\<not> settings_lock self" and "\<not> lock (pixel_array self)"
  shows "snd (update_capture_settings ops w self) = Inl IndexError \<and>
     raised (update_settings ops w self) = Some IndexError \<and>
     settings (state_of (update_settings ops w self)) = settings self"
proof -
  have p: "parse_settings ops stderr = Inl IndexError"
    using assms(3)
    by (auto simp: parse_settings_def find_last_match_empty split: sum.splits
        dest: find_last_match_error)
  with raspistill_calibration [OF assms(1,2), of ops]
  have s: "snd (update_capture_settings ops w self) = Inl IndexError" by simp
  then obtain fx where "update_capture_settings ops w self = (fx, Inl IndexError)"
    by (cases "update_capture_settings ops w self") simp
  from update_settings_raises [OF assms(4,5) this] s show ?thesis by simp
qed

text \<open>The example camera and a stream without either line.\<close>

theorem missing_pattern_raises_IndexError_witness:
  "finditer exposure_pattern
     ''mmal: Cannot read camera info, keeping the defaults for OV5647'' = [] \<and>
   raised (update_settings exact_ops silent_world example_camera) = Some IndexError \<and>
   settings (state_of (update_settings exact_ops silent_world example_camera)) =
     Some example_settings"
proof -
  have t: "tool_stderr silent_world =
      Inr ''mmal: Cannot read camera info, keeping the defaults for OV5647''"
    by (simp add: silent_world_def)
  from missing_pattern_raises_IndexError [OF example_camera_fields(1) t disjI1 [OF silent_exposure]
      example_camera_fields(3,4), of exact_ops]
    silent_exposure example_camera_fields(5)
  show ?thesis by simp
qed

text \<open>
  \<^bold>\<open>C2\<close> as stated fails: for a stream without either line the exception is \<^verbatim>\<open>IndexError\<close>,
  not \<^verbatim>\<open>CalibrationParseError\<close>.
\<close>

theorem missing_pattern_not_CalibrationParseError:
  "finditer exposure_pattern
     ''mmal: Cannot read camera info, keeping the defaults for OV5647'' = [] \<and>
   snd (update_capture_settings exact_ops silent_world example_camera) = Inl IndexError \<and>
   snd (update_capture_settings exact_ops silent_world example_camera) \<noteq>
     Inl CalibrationParseError"
  by (simp add: silent_exposure silent_calibration example_camera_fields)

subsection \<open>The last match\<close>

text \<open>
  \<^bold>\<open>C3\<close>, as the code has it. The stream has matches of both patterns, \<open>m1\<close> and \<open>m2\<close> are
  the last ones, whatever matches \<open>ms1\<close> and \<open>ms2\<close> come before them; every group of \<open>m1\<close>
  and \<open>m2\<close> holds at least one digit, and no denominator is zero. Then the calibration of
  \<^verbatim>\<open>RaspiStillCamera\<close> returns the dictionary whose gains are the quotients of the floats
  read from \<open>m1\<close> and \<open>m2\<close>, and whose shutter speed is the float read from the
  exposure of \<open>m1\<close>.
\<close>

theorem calibration_reads_last_match:
  assumes "cls self = RaspiStillCamera"
    and "tool_stderr w = Inr stderr"
    and "finditer exposure_pattern stderr = ms1 @ [m1]"
    and "finditer awb_pattern stderr = ms2 @ [m2]"
    and "\<forall>v \<in> snd ` set (m1 @ m2). v \<noteq> []"
    and "\<not> all_zeros (captured m1 ''analog_gain_d'')"
    and "\<not> all_zeros (captured m1 ''digital_gain_d'')"
    and "\<not> all_zeros (captured m2 ''awb_r_d'')"
    and "\<not> all_zeros (captured m2 ''awb_b_d'')"
  shows "snd (update_capture_settings ops w self) =
     Inr [(''analog_gain'',
             PyFloat (truediv ops (of_digits ops (captured m1 ''analog_gain_n''))
                                  (of_digits ops (captured m1 ''analog_gain_d'')))),
          (''digital_gain'',
             PyFloat (truediv ops (of_digits ops (captured m1 ''digital_gain_n''))
                                  (of_digits ops (captured m1 ''digital_gain_d'')))),
          (''shutter_speed'', PyFloat (of_digits ops (captured m1 ''exposure''))),
          (''awb_gains'',
             PyList [PyFloat (truediv ops (of_digits ops (captured m2 ''awb_r_n''))
                                          (of_digits ops (captured m2 ''awb_r_d''))),
                     PyFloat (truediv ops (of_digits ops (captured m2 ''awb_b_n''))
                                          (of_digits ops (captured m2 ''awb_b_d'')))])]"
proof -
  from assms(3) obtain e an ad dn dd where
    m1: "m1 = [(''exposure'', e), (''analog_gain_n'', an), (''analog_gain_d'', ad),
               (''digital_gain_n'', dn), (''digital_gain_d'', dd)]"
    and d1: "list_all is_digit e" "list_all is_digit an" "list_all is_digit ad"
      "list_all is_digit dn" "list_all is_digit dd"
    by (rule exposure_match_shape)
  from assms(4) obtain rn rd bn bd where
    m2: "m2 = [(''awb_r_n'', rn), (''awb_r_d'', rd), (''awb_b_n'', bn), (''awb_b_d'', bd)]"
    and d2: "list_all is_digit rn" "list_all is_digit rd"
      "list_all is_digit bn" "list_all is_digit bd"
    by (rule awb_match_shape)
  from assms(5) m1 m2 have ne: "e \<noteq> []" "an \<noteq> []" "ad \<noteq> []" "dn \<noteq> []" "dd \<noteq> []"
    "rn \<noteq> []" "rd \<noteq> []" "bn \<noteq> []" "bd \<noteq> []"
    by simp_all
  from assms(6-9) m1 m2 have nz: "\<not> all_zeros ad" "\<not> all_zeros dd" "\<not> all_zeros rd"
    "\<not> all_zeros bd"
    by (simp_all add: captured_def)
  have a: "group_ratio ops (Some m1) ''analog_gain_n'' ''analog_gain_d'' =
      Inr (truediv ops (of_digits ops an) (of_digits ops ad))"
    by (rule group_ratio_digits) (simp_all add: m1 ne d1 nz)
  have d: "group_ratio ops (Some m1) ''digital_gain_n'' ''digital_gain_d'' =
      Inr (truediv ops (of_digits ops dn) (of_digits ops dd))"
    by (rule group_ratio_digits) (simp_all add: m1 ne d1 nz)
  have s: "group_float ops (Some m1) ''exposure'' = Inr (of_digits ops e)"
    by (rule group_float_digits) (simp_all add: m1 ne d1)
  have r: "group_ratio ops (Some m2) ''awb_r_n'' ''awb_r_d'' =
      Inr (truediv ops (of_digits ops rn) (of_digits ops rd))"
    by (rule group_ratio_digits) (simp_all add: m2 ne d2 nz)
  have b: "group_ratio ops (Some m2) ''awb_b_n'' ''awb_b_d'' =
      Inr (truediv ops (of_digits ops bn) (of_digits ops bd))"
    by (rule group_ratio_digits) (simp_all add: m2 ne d2 nz)
  have "parse_settings ops stderr = settings_of_matches ops (Some m1) (Some m2)"
    by (simp add: parse_settings_def find_last_match_last [OF assms(3)]
        find_last_match_last [OF assms(4)])
  also have "\<dots> =
     Inr [(''analog_gain'', PyFloat (truediv ops (of_digits ops an) (of_digits ops ad))),
          (''digital_gain'', PyFloat (truediv ops (of_digits ops dn) (of_digits ops dd))),
          (''shutter_speed'', PyFloat (of_digits ops e)),
          (''awb_gains'',
             PyList [PyFloat (truediv ops (of_digits ops rn) (of_digits ops rd)),
                     PyFloat (truediv ops (of_digits ops bn) (of_digits ops bd))])]"
    by (simp add: settings_of_matches_def a d s r b)
  finally show ?thesis
    using raspistill_calibration [OF assms(1,2), of ops]
    by (simp add: m1 m2 captured_def)
qed

text \<open>
  The stream of the example: two exposure lines and two white balance lines. With exact
  arithmetic the calibration returns analog gain 2, digital gain 2 and shutter speed 1500,
  read from the second line of each kind.
\<close>

theorem calibration_reads_last_match_witness:
  "snd (update_capture_settings exact_ops example_world (new_camera RaspiStillCamera)) =
     Inr [(''analog_gain'', PyFloat 2), (''digital_gain'', PyFloat 2),
          (''shutter_speed'', PyFloat 1500),
          (''awb_gains'', PyList [PyFloat (3 / 2), PyFloat 2])]"
proof -
  have c: "cls (new_camera RaspiStillCamera) = RaspiStillCamera"
    by (simp add: new_camera_def)
  have t: "tool_stderr example_world = Inr example_stderr"
    by (simp add: example_world_def)
  show ?thesis
    using calibration_reads_last_match [OF c t ex_exposure ex_awb, of exact_ops]
    by (simp add: captured_def all_zeros_def exact_ops_def nat_of_digits_def)
qed

text \<open>
  \<^bold>\<open>C3\<close> as stated fails: both patterns match in each of these two streams, and the
  calibration raises \<^verbatim>\<open>ZeroDivisionError\<close> on the gain \<^verbatim>\<open>120/0\<close> and \<^verbatim>\<open>ValueError\<close> on the
  groups without a digit.
\<close>

theorem zero_or_missing_number_raises:
  "finditer exposure_pattern zero_gain_stderr \<noteq> [] \<and>
   finditer awb_pattern zero_gain_stderr \<noteq> [] \<and>
   snd (update_capture_settings exact_ops
          \<lparr>tool_stderr = Inr zero_gain_stderr, camera_reading = Inl PiCameraError,
           capture_error = None\<rparr>
          (new_camera RaspiStillCamera)) = Inl ZeroDivisionError \<and>
   finditer exposure_pattern no_digits_stderr \<noteq> [] \<and>
   finditer awb_pattern no_digits_stderr \<noteq> [] \<and>
   snd (update_capture_settings exact_ops
          \<lparr>tool_stderr = Inr no_digits_stderr, camera_reading = Inl PiCameraError,
           capture_error = None\<rparr>
          (new_camera RaspiStillCamera)) = Inl ValueError"
  by code_simp

subsection \<open>Mutual exclusion\<close>

text \<open>
  \<^bold>\<open>C4\<close>. In every state that the two threads can reach, whatever the interleaving of their
  steps: at most one of them is inside its \<^verbatim>\<open>with self.settings_lock\<close> block, so never both
  are in their camera operation; while one is inside, the other, still outside, stays
  outside at every step; when the settings lock is free, a thread outside can take it; and
  a step moves one thread only, so one release lets one thread in.
\<close>

theorem one_camera_operation_at_a_time:
  assumes "reachable_sys s"
  shows "\<not> (inside (loc s MainLoop) \<and> inside (loc s TimerThread)) \<and>
     \<not> (loc s MainLoop = Operating \<and> loc s TimerThread = Operating) \<and>
     (\<forall>a b s'. inside (loc s a) \<and> loc s b = Outside \<and> step s s' \<longrightarrow>
        loc s' b = Outside) \<and>
     (\<forall>b. \<not> slock s \<and> loc s b = Outside \<longrightarrow>
        step s (s\<lparr>slock := True, loc := (loc s)(b := Entered)\<rparr>)) \<and>
     (\<forall>s'. step s s' \<longrightarrow>
        loc s' MainLoop = loc s MainLoop \<or> loc s' TimerThread = loc s TimerThread)"
proof (intro conjI allI impI)
  note inv = reachable_exclusion [OF assms]
  from inv show "\<not> (inside (loc s MainLoop) \<and> inside (loc s TimerThread))" by simp
  from inv show "\<not> (loc s MainLoop = Operating \<and> loc s TimerThread = Operating)"
    by (auto simp: inside_def)
  show "loc s' b = Outside"
    if "inside (loc s a) \<and> loc s b = Outside \<and> step s s'" for a b s'
  proof -
    from that inv have "slock s" by (cases a) auto
    with that blocked_outside show ?thesis by blast
  qed
  show "step s (s\<lparr>slock := True, loc := (loc s)(b := Entered)\<rparr>)"
    if "\<not> slock s \<and> loc s b = Outside" for b
    using that by (auto intro: step.enter)
  show "loc s' MainLoop = loc s MainLoop \<or> loc s' TimerThread = loc s TimerThread"
    if "step s s'" for s'
    using that by (rule step_moves_one)
qed

text \<open>
  The main loop has entered and taken both locks: this state is reached, and the timer's
  thread is outside.
\<close>

theorem one_camera_operation_at_a_time_witness:
  "reachable_sys capturing \<and>
   loc capturing MainLoop = Operating \<and>
   loc capturing TimerThread = Outside \<and>
   \<not> inside (loc capturing TimerThread)"
proof -
  have "step sys_init (sys_init\<lparr>slock := True, loc := (loc sys_init)(MainLoop := Entered)\<rparr>)"
    by (rule step.enter) (simp_all add: sys_init_def)
  with reachable_sys.start
  have r1: "reachable_sys
      (sys_init\<lparr>slock := True, loc := (loc sys_init)(MainLoop := Entered)\<rparr>)"
    by (rule reachable_sys.next_step)
  let ?s = "sys_init\<lparr>slock := True, loc := (loc sys_init)(MainLoop := Entered)\<rparr>"
  have "step ?s (?s\<lparr>plock := True, loc := (loc ?s)(MainLoop := Operating)\<rparr>)"
    by (rule step.flash_on) (simp_all add: sys_init_def)
  with r1 have "reachable_sys (?s\<lparr>plock := True, loc := (loc ?s)(MainLoop := Operating)\<rparr>)"
    by (rule reachable_sys.next_step)
  moreover have "?s\<lparr>plock := True, loc := (loc ?s)(MainLoop := Operating)\<rparr> = capturing"
    by (simp add: sys_init_def capturing_def)
  ultimately have r: "reachable_sys capturing" by simp
  have m: "loc capturing MainLoop = Operating" "loc capturing TimerThread = Outside"
    by (simp_all add: capturing_def)
  from one_camera_operation_at_a_time [OF r, THEN conjunct1] m have "\<not> inside (loc capturing TimerThread)"
    by (simp add: inside_def)
  with r m show ?thesis by simp
qed

subsection \<open>The cached settings\<close>

text \<open>
  \<^bold>\<open>C5\<close>. In every state a constructed camera object reaches, \<^verbatim>\<open>self.settings\<close> is a
  dictionary that a calibration returned, with all four keys. \<^verbatim>\<open>take_photo\<close> reads it and
  never changes it; the timer's \<^verbatim>\<open>update_settings\<close> leaves it as it was or replaces it by
  the dictionary that this calibration returned.
\<close>

theorem capture_uses_finished_calibration:
  assumes "reachable ops str_float self"
  shows "(\<exists>st w0. settings self = Some st \<and>
            snd (update_capture_settings ops w0 self) = Inr st \<and>
            map fst st = [''analog_gain'', ''digital_gain'', ''shutter_speed'', ''awb_gains'']) \<and>
     settings (state_of (take_photo str_float w output_path self)) = settings self \<and>
     (settings (state_of (timer_fires ops w self)) = settings self \<or>
      (\<exists>st. snd (update_capture_settings ops w self) = Inr st \<and>
         settings (state_of (timer_fires ops w self)) = Some st))"
proof (intro conjI)
  from reachable_settings [OF assms] obtain st w0 where
    st: "settings self = Some st" "snd (update_capture_settings ops w0 self) = Inr st"
    by blast
  with calibration_keys [OF st(2)]
  show "\<exists>st w0. settings self = Some st \<and>
            snd (update_capture_settings ops w0 self) = Inr st \<and>
            map fst st = [''analog_gain'', ''digital_gain'', ''shutter_speed'', ''awb_gains'']"
    by auto
  show "settings (state_of (take_photo str_float w output_path self)) = settings self"
    using take_photo_frame [of str_float w output_path self] by simp
  show "settings (state_of (timer_fires ops w self)) = settings self \<or>
      (\<exists>st. snd (update_capture_settings ops w self) = Inr st \<and>
         settings (state_of (timer_fires ops w self)) = Some st)"
    by (rule timer_fires_settings)
qed

text \<open>
  The example camera is reached; a capture and a calibration that fails both leave its
  settings in place.
\<close>

theorem capture_uses_finished_calibration_witness:
  "reachable exact_ops str_exact example_camera \<and>
   settings example_camera = Some example_settings \<and>
   map fst example_settings =
     [''analog_gain'', ''digital_gain'', ''shutter_speed'', ''awb_gains''] \<and>
   settings (state_of (take_photo str_exact example_world ''photo.jpg'' example_camera)) =
     Some example_settings \<and>
   settings (state_of (timer_fires exact_ops silent_world example_camera)) =
     Some example_settings"
proof -
  have r: "reachable exact_ops str_exact example_camera"
    by (rule reachable.constructed) (rule example_camera_constructed)
  have no: "snd (update_capture_settings exact_ops silent_world example_camera) =
      Inl IndexError"
    by (simp add: silent_calibration example_camera_fields)
  from capture_uses_finished_calibration [OF r, of silent_world "''photo.jpg''"] no
  have t: "settings (state_of (timer_fires exact_ops silent_world example_camera)) =
      settings example_camera"
    by auto
  from capture_uses_finished_calibration [OF r, of example_world "''photo.jpg''"]
  have p: "settings (state_of (take_photo str_exact example_world ''photo.jpg''
      example_camera)) = settings example_camera"
    by blast
  from r t p show ?thesis
    by (simp add: example_camera_fields) (simp add: example_settings_def)
qed

subsection \<open>The timer\<close>

text \<open>
  \<^bold>\<open>C6\<close>. When the constructor returns, one calibration has run (its effects are the
  object's only effects), its result is stored, and a timer of 600 seconds is pending;
  every \<^verbatim>\<open>update_settings\<close> that returns leaves a pending timer of 600 seconds;
  \<^verbatim>\<open>destroy\<close> cancels the timer, which turns a pending timer into a cancelled one and
  changes nothing when the timer has already fired; a cancelled timer never calls
  \<^verbatim>\<open>update_settings\<close>, a pending one does.
\<close>

theorem recalibration_timer_lifecycle:
  "(Camera_init ops w c res pa = Returns self \<longrightarrow>
      (\<exists>st. update_capture_settings ops w
              \<lparr>cls = c, resolution = res, pixel_array = pa, settings_lock = False,
               settings = None, settings_update_timer = None, effects = []\<rparr> =
              (effects self, Inr st) \<and>
            settings self = Some st) \<and>
      settings_update_timer self = Some \<lparr>interval = 600, tstate = Pending\<rparr>) \<and>
   (update_settings ops w self0 = Returns self1 \<longrightarrow>
      settings_update_timer self1 = Some \<lparr>interval = 600, tstate = Pending\<rparr>) \<and>
   (settings_update_timer cam = Some t \<longrightarrow>
      destroy cam = Returns (cam\<lparr>settings_update_timer := Some (cancel t)\<rparr>) \<and>
      (tstate t = Pending \<longrightarrow> cancel t = t\<lparr>tstate := Cancelled\<rparr>) \<and>
      (tstate t = Fired \<longrightarrow> destroy cam = Returns cam) \<and>
      (tstate t = Cancelled \<longrightarrow> timer_fires ops w cam = Returns cam) \<and>
      (tstate t = Pending \<longrightarrow>
         timer_fires ops w cam =
           update_settings ops w
             (cam\<lparr>settings_update_timer := Some (t\<lparr>tstate := Fired\<rparr>)\<rparr>)))"
proof (intro conjI impI)
  assume init: "Camera_init ops w c res pa = Returns self"
  let ?new = "\<lparr>cls = c, resolution = res, pixel_array = pa, settings_lock = False,
      settings = None, settings_update_timer = None, effects = []\<rparr> :: 'a camera"
  from update_settings_Returns [OF init [unfolded Camera_init_def]]
  obtain st where st: "snd (update_capture_settings ops w ?new) = Inr st"
    "settings self = Some st"
    "effects self = effects ?new @ fst (update_capture_settings ops w ?new)"
    "settings_update_timer self =
       Some \<lparr>interval = SETTINGS_UPDATE_INTERVAL, tstate = Pending\<rparr>"
    by blast
  from st(1,3) have "update_capture_settings ops w ?new = (effects self, Inr st)"
    by (cases "update_capture_settings ops w ?new") simp
  with st(2) show "\<exists>st. update_capture_settings ops w ?new = (effects self, Inr st) \<and>
      settings self = Some st"
    by blast
  from st(4) show "settings_update_timer self = Some \<lparr>interval = 600, tstate = Pending\<rparr>"
    by (simp add: SETTINGS_UPDATE_INTERVAL_def)
next
  assume "update_settings ops w self0 = Returns self1"
  from update_settings_Returns [OF this]
  show "settings_update_timer self1 = Some \<lparr>interval = 600, tstate = Pending\<rparr>"
    by (auto simp: SETTINGS_UPDATE_INTERVAL_def)
next
  assume t: "settings_update_timer cam = Some t"
  then show "destroy cam = Returns (cam\<lparr>settings_update_timer := Some (cancel t)\<rparr>)"
    by (simp add: destroy_def)
  show "cancel t = t\<lparr>tstate := Cancelled\<rparr>" if "tstate t = Pending"
    using that by (simp add: cancel_def)
  show "destroy cam = Returns cam" if "tstate t = Fired"
    using that t by (simp add: destroy_def cancel_def)
  show "timer_fires ops w cam = Returns cam" if "tstate t = Cancelled"
    using that t by (simp add: timer_fires_def)
  show "timer_fires ops w cam =
      update_settings ops w (cam\<lparr>settings_update_timer := Some (t\<lparr>tstate := Fired\<rparr>)\<rparr>)"
    if "tstate t = Pending"
    using that t by (simp add: timer_fires_def)
qed

text \<open>The example camera, constructed, then destroyed before its timer fires.\<close>

theorem recalibration_timer_lifecycle_witness:
  "Camera_init exact_ops example_world RaspiStillCamera (951, 1268)
     (PixelArray_init NUM_PIXELS) = Returns example_camera \<and>
   settings example_camera = Some example_settings \<and>
   settings_update_timer example_camera = Some \<lparr>interval = 600, tstate = Pending\<rparr> \<and>
   destroy example_camera =
     Returns (example_camera
       \<lparr>settings_update_timer := Some \<lparr>interval = 600, tstate = Cancelled\<rparr>\<rparr>) \<and>
   timer_fires exact_ops example_world
     (example_camera\<lparr>settings_update_timer := Some \<lparr>interval = 600, tstate = Cancelled\<rparr>\<rparr>) =
     Returns (example_camera
       \<lparr>settings_update_timer := Some \<lparr>interval = 600, tstate = Cancelled\<rparr>\<rparr>)"
proof -
  note init = example_camera_constructed
  from recalibration_timer_lifecycle [where ops = exact_ops and w = example_world and c = RaspiStillCamera
      and res = "(951, 1268)" and pa = "PixelArray_init NUM_PIXELS"
      and self = example_camera and cam = example_camera and ?self0.0 = example_camera and ?self1.0 = example_camera
      and t = "\<lparr>interval = 600, tstate = Pending\<rparr>"] init
  have timer: "settings_update_timer example_camera =
      Some \<lparr>interval = 600, tstate = Pending\<rparr>"
    by blast
  from recalibration_timer_lifecycle [where ops = exact_ops and w = example_world and c = RaspiStillCamera
      and res = "(951, 1268)" and pa = "PixelArray_init NUM_PIXELS"
      and self = example_camera and cam = example_camera and ?self0.0 = example_camera and ?self1.0 = example_camera
      and t = "\<lparr>interval = 600, tstate = Pending\<rparr>"] timer
  have d: "destroy example_camera =
      Returns (example_camera\<lparr>settings_update_timer :=
        Some (cancel \<lparr>interval = 600, tstate = Pending\<rparr>)\<rparr>)"
    and c: "cancel \<lparr>interval = 600, tstate = Pending\<rparr> =
      \<lparr>interval = 600, tstate = Pending\<rparr>\<lparr>tstate := Cancelled\<rparr>"
    by simp_all
  let ?gone = "example_camera
      \<lparr>settings_update_timer := Some \<lparr>interval = 600, tstate = Cancelled\<rparr>\<rparr>"
  have g: "settings_update_timer ?gone = Some \<lparr>interval = 600, tstate = Cancelled\<rparr>"
    by simp
  from recalibration_timer_lifecycle [where ops = exact_ops and w = example_world and c = RaspiStillCamera
      and res = "(951, 1268)" and pa = "PixelArray_init NUM_PIXELS"
      and self = example_camera and cam = ?gone and ?self0.0 = example_camera and ?self1.0 = example_camera
      and t = "\<lparr>interval = 600, tstate = Cancelled\<rparr>"] g
  have f: "timer_fires exact_ops example_world ?gone = Returns ?gone"
    by simp
  from init timer d c f show ?thesis
    by (simp add: example_camera_fields)
qed

subsection \<open>The flash\<close>

text \<open>
  \<^bold>\<open>C7\<close>. \<^verbatim>\<open>flash_on\<close> does not return while the lock is held. With the lock free it takes
  it, sets the flash brightness and ends with the strip white; with \<^verbatim>\<open>countdown\<close> it first
  shows red for half a second and black for one second, three times, 4.5 seconds in all,
  and without it does not sleep. \<^verbatim>\<open>flash_off\<close> sets the idle brightness, makes the strip
  black and releases the lock. \<^verbatim>\<open>take_photo\<close> calls \<^verbatim>\<open>flash_on\<close> with the countdown,
  \<^verbatim>\<open>update_settings\<close> without it.
\<close>

theorem flash_on_flash_off_contract:
  "(lock pa \<longrightarrow> flash_on countdown pa = Blocks pa) \<and>
   (\<not> lock pa \<longrightarrow>
      flash_on False pa =
        Returns (pa\<lparr>lock := True, brightness := FLASH_BRIGHTNESS,
                   pixels := replicate (num_pixels pa) (255, 255, 255),
                   events := events pa @
                     [SetBrightness FLASH_BRIGHTNESS, Fill (255, 255, 255), Show]\<rparr>) \<and>
      flash_on True pa =
        Returns (pa\<lparr>lock := True, brightness := FLASH_BRIGHTNESS,
                   pixels := replicate (num_pixels pa) (255, 255, 255),
                   events := events pa @ SetBrightness FLASH_BRIGHTNESS #
                     concat (replicate 3
                       [Fill (255, 0, 0), Show, Sleep (1 / 2),
                        Fill (0, 0, 0), Show, Sleep 1]) @
                     [Fill (255, 255, 255), Show]\<rparr>) \<and>
      slept (events (state_of (flash_on True pa))) = slept (events pa) + 9 / 2 \<and>
      slept (events (state_of (flash_on False pa))) = slept (events pa)) \<and>
   (lock pa \<longrightarrow>
      flash_off pa =
        Returns (pa\<lparr>lock := False, brightness := IDLE_BRIGHTNESS,
                   pixels := replicate (num_pixels pa) (0, 0, 0),
                   events := events pa @
                     [SetBrightness IDLE_BRIGHTNESS, Fill (0, 0, 0), Show]\<rparr>)) \<and>
   (\<not> settings_lock self \<and> \<not> lock (pixel_array self) \<longrightarrow>
      (pixel_array (state_of (take_photo str_float w output_path self)) =
         state_of (flash_on True (pixel_array self)) \<or>
       pixel_array (state_of (take_photo str_float w output_path self)) =
         state_of (flash_off (state_of (flash_on True (pixel_array self))))) \<and>
      (pixel_array (state_of (update_settings ops w self)) =
         state_of (flash_on False (pixel_array self)) \<or>
       pixel_array (state_of (update_settings ops w self)) =
         state_of (flash_off (state_of (flash_on False (pixel_array self))))))"
proof (intro conjI impI)
  show "flash_on countdown pa = Blocks pa" if "lock pa"
    using that by (rule flash_on_held)
  show "flash_off pa =
        Returns (pa\<lparr>lock := False, brightness := IDLE_BRIGHTNESS,
                   pixels := replicate (num_pixels pa) (0, 0, 0),
                   events := events pa @
                     [SetBrightness IDLE_BRIGHTNESS, Fill (0, 0, 0), Show]\<rparr>)" if "lock pa"
    using that by (rule flash_off_held)
next
  assume free: "\<not> lock pa"
  show "flash_on False pa =
        Returns (pa\<lparr>lock := True, brightness := FLASH_BRIGHTNESS,
                   pixels := replicate (num_pixels pa) (255, 255, 255),
                   events := events pa @
                     [SetBrightness FLASH_BRIGHTNESS, Fill (255, 255, 255), Show]\<rparr>)"
    using free by (rule flash_on_free)
  show "flash_on True pa =
        Returns (pa\<lparr>lock := True, brightness := FLASH_BRIGHTNESS,
                   pixels := replicate (num_pixels pa) (255, 255, 255),
                   events := events pa @ SetBrightness FLASH_BRIGHTNESS #
                     concat (replicate 3
                       [Fill (255, 0, 0), Show, Sleep (1 / 2),
                        Fill (0, 0, 0), Show, Sleep 1]) @
                     [Fill (255, 255, 255), Show]\<rparr>)"
    using free by (rule flash_on_countdown)
  show "slept (events (state_of (flash_on True pa))) = slept (events pa) + 9 / 2"
    using free by (simp add: flash_on_countdown slept_def numeral_3_eq_3)
  show "slept (events (state_of (flash_on False pa))) = slept (events pa)"
    using free by (simp add: flash_on_free slept_def)
next
  assume free: "\<not> settings_lock self \<and> \<not> lock (pixel_array self)"
  then have f: "\<not> settings_lock self" "\<not> lock (pixel_array self)" by simp_all
  obtain fx r where c: "capture_image str_float w output_path self = (fx, r)"
    by (cases "capture_image str_float w output_path self")
  show "pixel_array (state_of (take_photo str_float w output_path self)) =
         state_of (flash_on True (pixel_array self)) \<or>
       pixel_array (state_of (take_photo str_float w output_path self)) =
         state_of (flash_off (state_of (flash_on True (pixel_array self))))"
  proof (cases r)
    case None
    with c take_photo_returns [OF f] show ?thesis by simp
  next
    case (Some e)
    with c take_photo_raises [OF f] show ?thesis by simp
  qed
  obtain fx' r' where u: "update_capture_settings ops w self = (fx', r')"
    by (cases "update_capture_settings ops w self")
  show "pixel_array (state_of (update_settings ops w self)) =
         state_of (flash_on False (pixel_array self)) \<or>
       pixel_array (state_of (update_settings ops w self)) =
         state_of (flash_off (state_of (flash_on False (pixel_array self))))"
  proof (cases r')
    case (Inl e)
    with u update_settings_raises [OF f] show ?thesis by simp
  next
    case (Inr st)
    with u update_settings_stores [OF f] show ?thesis
      by (simp add: Let_def split: option.splits)
  qed
qed

text \<open>A fresh strip: the countdown, a second \<^verbatim>\<open>flash_on\<close> that blocks, and \<^verbatim>\<open>flash_off\<close>.\<close>

theorem flash_on_flash_off_contract_witness:
  "\<not> lock (PixelArray_init NUM_PIXELS) \<and>
   slept (events (state_of (flash_on True (PixelArray_init NUM_PIXELS)))) = 9 / 2 \<and>
   lock (state_of (flash_on True (PixelArray_init NUM_PIXELS))) \<and>
   flash_on False (state_of (flash_on True (PixelArray_init NUM_PIXELS))) =
     Blocks (state_of (flash_on True (PixelArray_init NUM_PIXELS))) \<and>
   released_idle (state_of (flash_off (state_of (flash_on True (PixelArray_init NUM_PIXELS)))))"
proof -
  have free: "\<not> lock (PixelArray_init NUM_PIXELS)"
    by (simp add: PixelArray_init_def)
  have none: "slept (events (PixelArray_init NUM_PIXELS)) = 0"
    by (simp add: PixelArray_init_def slept_def)
  from flash_on_flash_off_contract [of "PixelArray_init NUM_PIXELS" True example_camera str_exact example_world
      "''photo.jpg''" exact_ops] free
  have on: "flash_on True (PixelArray_init NUM_PIXELS) =
      Returns ((PixelArray_init NUM_PIXELS)\<lparr>lock := True, brightness := FLASH_BRIGHTNESS,
         pixels := replicate (num_pixels (PixelArray_init NUM_PIXELS)) (255, 255, 255),
         events := events (PixelArray_init NUM_PIXELS) @ SetBrightness FLASH_BRIGHTNESS #
           concat (replicate 3
             [Fill (255, 0, 0), Show, Sleep (1 / 2), Fill (0, 0, 0), Show, Sleep 1]) @
           [Fill (255, 255, 255), Show]\<rparr>)"
    and t: "slept (events (state_of (flash_on True (PixelArray_init NUM_PIXELS)))) =
      slept (events (PixelArray_init NUM_PIXELS)) + 9 / 2"
    by blast+
  have held: "lock (state_of (flash_on True (PixelArray_init NUM_PIXELS)))"
    by (simp add: on)
  from flash_on_flash_off_contract [of "state_of (flash_on True (PixelArray_init NUM_PIXELS))" False example_camera
      str_exact example_world "''photo.jpg''" exact_ops] held
  have blocks: "flash_on False (state_of (flash_on True (PixelArray_init NUM_PIXELS))) =
     Blocks (state_of (flash_on True (PixelArray_init NUM_PIXELS)))"
    and off: "flash_off (state_of (flash_on True (PixelArray_init NUM_PIXELS))) =
        Returns ((state_of (flash_on True (PixelArray_init NUM_PIXELS)))
          \<lparr>lock := False, brightness := IDLE_BRIGHTNESS,
           pixels := replicate (num_pixels (state_of (flash_on True (PixelArray_init NUM_PIXELS))))
             (0, 0, 0),
           events := events (state_of (flash_on True (PixelArray_init NUM_PIXELS))) @
             [SetBrightness IDLE_BRIGHTNESS, Fill (0, 0, 0), Show]\<rparr>)"
    by blast+
  have idle: "released_idle
      (state_of (flash_off (state_of (flash_on True (PixelArray_init NUM_PIXELS)))))"
    unfolding off by (simp add: released_idle_def)
  from free t none held blocks idle show ?thesis by simp
qed

subsection \<open>The capture command\<close>

text \<open>
  \<^bold>\<open>C8\<close>. With calibrated settings, \<^verbatim>\<open>RaspiStillCamera.capture_image\<close> makes one call of
  \<^verbatim>\<open>raspistill\<close> with exactly these arguments: the output path, no thumbnail, the width and
  height of the resolution, the analog and digital gain, exposure off, the shutter speed,
  white balance off with the two gains joined by a comma, a timeout of 1, and the two flags
  \<^verbatim>\<open>--nopreview\<close> and \<^verbatim>\<open>--verbose\<close>.
\<close>

theorem raspistill_capture_arguments:
  assumes "cls self = RaspiStillCamera"
    and "settings self = Some st"
    and "map_of st ''analog_gain'' = Some (PyFloat analog)"
    and "map_of st ''digital_gain'' = Some (PyFloat digital)"
    and "map_of st ''shutter_speed'' = Some (PyFloat shutter)"
    and "map_of st ''awb_gains'' = Some (PyList [PyFloat awb_r, PyFloat awb_b])"
  shows "capture_image str_float w output_path self =
     ([Call [''raspistill'',
             ''--output'', output_path,
             ''--thumb'', ''none'',
             ''--width'', str_int (fst (resolution self)),
             ''--height'', str_int (snd (resolution self)),
             ''--analoggain'', str_float analog,
             ''--digitalgain'', str_float digital,
             ''--exposure'', ''off'',
             ''--shutter'', str_float shutter,
             ''--awb'', ''off'',
             ''--awbgains'', str_float awb_r @ '','' @ str_float awb_b,
             ''--timeout'', ''1'',
             ''--nopreview'',
             ''--verbose'']],
      capture_error w)"
  using assms
  by (simp add: capture_image_def RaspiStillCamera_capture_image_def dict_get_def
      str_each_def)

text \<open>The command line of the example camera.\<close>

theorem raspistill_capture_arguments_witness:
  "capture_image str_exact example_world ''photo.jpg'' example_camera =
     ([Call [''raspistill'', ''--output'', ''photo.jpg'', ''--thumb'', ''none'',
             ''--width'', ''951'', ''--height'', ''1268'',
             ''--analoggain'', ''2.0'', ''--digitalgain'', ''2.0'',
             ''--exposure'', ''off'', ''--shutter'', ''1500.0'',
             ''--awb'', ''off'', ''--awbgains'', ''1.5,2.0'',
             ''--timeout'', ''1'', ''--nopreview'', ''--verbose'']],
      None)"
proof -
  have st: "map_of example_settings ''analog_gain'' = Some (PyFloat 2)"
    "map_of example_settings ''digital_gain'' = Some (PyFloat 2)"
    "map_of example_settings ''shutter_speed'' = Some (PyFloat 1500)"
    "map_of example_settings ''awb_gains'' = Some (PyList [PyFloat (3 / 2), PyFloat 2])"
    by (simp_all add: example_settings_def)
  from raspistill_capture_arguments [OF example_camera_fields(1) example_camera_fields(5) st,
      of str_exact example_world "''photo.jpg''"]
  show ?thesis
    by (simp add: example_camera_fields str_int_examples str_exact_examples
        example_world_def)
qed

subsection \<open>Calibration through the library\<close>

text \<open>
  \<^bold>\<open>C9\<close>. When the camera session opens, \<^verbatim>\<open>PyCamera.update_capture_settings\<close> opens it at
  the resolution of the object, sleeps 2 seconds, closes it, and returns the exposure speed
  and the white balance gains it read, with both gains of the sensor left \<^verbatim>\<open>None\<close>.
\<close>

theorem library_calibration_settings:
  assumes "cls self = PyCamera"
    and "camera_reading w = Inr (exposure_speed, awb_gains)"
  shows "update_capture_settings ops w self =
     ([OpenCamera (resolution self), TimeSleep 2, CloseCamera],
      Inr [(''analog_gain'', PyNone),
           (''digital_gain'', PyNone),
           (''shutter_speed'', PyInt exposure_speed),
           (''awb_gains'', PyList (map (\<lambda>g. PyFloat (of_fraction ops g)) awb_gains))])"
  using assms
  by (simp add: update_capture_settings_def PyCamera_update_capture_settings_def)

text \<open>A library camera in the example world.\<close>

theorem library_calibration_settings_witness:
  "update_capture_settings exact_ops example_world (new_camera PyCamera) =
     ([OpenCamera (951, 1268), TimeSleep 2, CloseCamera],
      Inr [(''analog_gain'', PyNone),
           (''digital_gain'', PyNone),
           (''shutter_speed'', PyInt 33000),
           (''awb_gains'', PyList [PyFloat (3 / 2), PyFloat 2])])"
proof -
  have c: "cls (new_camera PyCamera) = PyCamera"
    by (simp add: new_camera_def)
  have r: "camera_reading example_world = Inr (33000, [3 / 2, 2])"
    by (simp add: example_world_def)
  from library_calibration_settings [OF c r, of exact_ops] show ?thesis
    by (simp add: new_camera_def exact_ops_def)
qed

subsection \<open>find_last_match\<close>

text \<open>
  \<^bold>\<open>C10\<close>. When the pattern has no match in the string, \<^verbatim>\<open>find_last_match\<close> raises
  \<^verbatim>\<open>IndexError\<close>; and it returns \<^verbatim>\<open>None\<close> for no pattern and no string at all.
\<close>

theorem find_last_match_never_None:
  "(finditer pattern string = [] \<longrightarrow> find_last_match pattern string = Inl IndexError) \<and>
   find_last_match pattern string \<noteq> Inr None"
  by (auto simp: find_last_match_def truthy_iterator_def Let_def split: list.splits)

text \<open>The exposure pattern has no match in this line.\<close>

theorem find_last_match_never_None_witness:
  "finditer exposure_pattern ''mmal: Cannot read camera info'' = [] \<and>
   find_last_match exposure_pattern ''mmal: Cannot read camera info'' = Inl IndexError"
proof -
  have h: "finditer exposure_pattern ''mmal: Cannot read camera info'' = []"
    by code_simp
  with find_last_match_never_None [of exposure_pattern "''mmal: Cannot read camera info''"] show ?thesis
    by simp
qed

end
